theory Spec2Isabelle
  imports Complex_Main
begin

section \<open>Values of type double\<close>

text \<open>
  KryptonAnalyzer computes with C++ \<open>double\<close> (and \<open>Float16_t\<close>, a \<open>float\<close>) values.
  The claims turn on the special values (not-a-number, the infinities) and on comparisons,
  so a value is either a finite number, one of the two infinities, or NaN. A finite value
  is represented by the real number it denotes: rounding, overflow of a finite result to an
  infinity and the sign of zero are not part of this model. Comparisons follow IEEE 754:
  every ordered comparison with NaN is false.
\<close>

datatype dbl = Fin real | PInf | NInf | NaN

text \<open>\<open>a < b\<close> on doubles.\<close>

fun dlt :: "dbl \<Rightarrow> dbl \<Rightarrow> bool" where
  "dlt (Fin a) (Fin b) = (a < b)"
| "dlt (Fin a) PInf = True"
| "dlt NInf (Fin b) = True"
| "dlt NInf PInf = True"
| "dlt _ _ = False"

text \<open>\<open>a == b\<close> on doubles.\<close>

fun deq :: "dbl \<Rightarrow> dbl \<Rightarrow> bool" where
  "deq NaN _ = False"
| "deq _ NaN = False"
| "deq a b = (a = b)"

text \<open>\<open>a >= b\<close> on doubles.\<close>

definition dge :: "dbl \<Rightarrow> dbl \<Rightarrow> bool" where
  "dge a b = (dlt b a \<or> deq a b)"

text \<open>\<open>a * b\<close> on doubles.\<close>

fun dmul :: "dbl \<Rightarrow> dbl \<Rightarrow> dbl" where
  "dmul NaN _ = NaN"
| "dmul _ NaN = NaN"
| "dmul (Fin a) (Fin b) = Fin (a * b)"
| "dmul (Fin a) PInf = (if a = 0 then NaN else if 0 < a then PInf else NInf)"
| "dmul (Fin a) NInf = (if a = 0 then NaN else if 0 < a then NInf else PInf)"
| "dmul PInf (Fin b) = (if b = 0 then NaN else if 0 < b then PInf else NInf)"
| "dmul NInf (Fin b) = (if b = 0 then NaN else if 0 < b then NInf else PInf)"
| "dmul PInf PInf = PInf"
| "dmul PInf NInf = NInf"
| "dmul NInf PInf = NInf"
| "dmul NInf NInf = PInf"

text \<open>\<open>a + b\<close> on doubles.\<close>

fun dadd :: "dbl \<Rightarrow> dbl \<Rightarrow> dbl" where
  "dadd NaN _ = NaN"
| "dadd _ NaN = NaN"
| "dadd (Fin a) (Fin b) = Fin (a + b)"
| "dadd PInf NInf = NaN"
| "dadd NInf PInf = NaN"
| "dadd PInf _ = PInf"
| "dadd NInf _ = NInf"
| "dadd _ b = b"

text \<open>\<open>a / b\<close> on doubles; a zero divisor is taken as \<open>+0.0\<close>.\<close>

fun ddiv :: "dbl \<Rightarrow> dbl \<Rightarrow> dbl" where
  "ddiv NaN _ = NaN"
| "ddiv _ NaN = NaN"
| "ddiv (Fin a) (Fin b) =
     (if b = 0 then (if a = 0 then NaN else if 0 < a then PInf else NInf)
      else Fin (a / b))"
| "ddiv (Fin a) PInf = Fin 0"
| "ddiv (Fin a) NInf = Fin 0"
| "ddiv PInf (Fin b) = (if 0 \<le> b then PInf else NInf)"
| "ddiv NInf (Fin b) = (if 0 \<le> b then NInf else PInf)"
| "ddiv _ _ = NaN"

text \<open>\<open>isnan\<close> and \<open>isinf\<close> of \<open>cmath\<close>.\<close>

fun isnan :: "dbl \<Rightarrow> bool" where
  "isnan NaN = True"
| "isnan _ = False"

fun isinf :: "dbl \<Rightarrow> bool" where
  "isinf PInf = True"
| "isinf NInf = True"
| "isinf _ = False"

section \<open>One-dimensional histograms (ROOT's TH1D)\<close>

text \<open>
  The analyzer uses five operations of ROOT's \<open>TH1D\<close>: construction with a bin count and
  an axis range, \<open>Fill\<close>, \<open>GetBinContent\<close>, \<open>GetXaxis()->GetBinCenter\<close> and
  \<open>GetEntries\<close>. A histogram of \<open>n\<close> bins has cells \<open>0 .. n + 1\<close>: cell \<open>0\<close> counts
  underflows, cells \<open>1 .. n\<close> are the bins of the axis, cell \<open>n + 1\<close> counts overflows
  (and NaN). Every \<open>Fill\<close> adds one to a cell and one to the entry count.
\<close>

record hist =
  h_nbins :: nat
  h_xmin :: real
  h_xmax :: real
  h_cells :: "nat list"
  h_entries :: nat

definition TH1D :: "nat \<Rightarrow> real \<Rightarrow> real \<Rightarrow> hist" where
  "TH1D nbins xlow xup =
     (let n = (if nbins = 0 then 1 else nbins)
      in \<lparr>h_nbins = n, h_xmin = xlow, h_xmax = xup,
          h_cells = replicate (n + 2) 0, h_entries = 0\<rparr>)"

definition FindBin :: "hist \<Rightarrow> dbl \<Rightarrow> nat" where
  "FindBin h x =
     (case x of
        Fin r \<Rightarrow>
          (if r < h_xmin h then 0
           else if \<not> r < h_xmax h then h_nbins h + 1
           else 1 + nat \<lfloor>real (h_nbins h) * (r - h_xmin h) / (h_xmax h - h_xmin h)\<rfloor>)
      | NInf \<Rightarrow> 0
      | PInf \<Rightarrow> h_nbins h + 1
      | NaN \<Rightarrow> h_nbins h + 1)"

definition Fill :: "hist \<Rightarrow> dbl \<Rightarrow> hist" where
  "Fill h x =
     (let b = FindBin h x
      in h\<lparr>h_cells := (h_cells h)[b := h_cells h ! b + 1],
           h_entries := h_entries h + 1\<rparr>)"

definition GetBinContent :: "hist \<Rightarrow> nat \<Rightarrow> real" where
  "GetBinContent h bin = real (h_cells h ! min bin (h_nbins h + 1))"

definition GetBinCenter :: "hist \<Rightarrow> int \<Rightarrow> real" where
  "GetBinCenter h bin =
     (let binwidth = (h_xmax h - h_xmin h) / real (h_nbins h)
      in h_xmin h + (real_of_int bin - 1) * binwidth + 0.5 * binwidth)"

definition GetEntries :: "hist \<Rightarrow> nat" where
  "GetEntries h = h_entries h"

section \<open>Configuration, geometry and events\<close>

text \<open>
  The configuration is the set of globals of \<open>KryptonAnalyzer.h\<close>. They are
  zero-initialised and \<open>ParseConfigFile\<close> stores what \<open>operator>>\<close> extracts, which is
  always a finite number, so the \<open>double\<close> parameters are reals. TPC identifiers
  (\<open>det::TPCConst::EId\<close>) are numbers; the identifier of VTPC1, an enumerator of the
  detector library, is a parameter of the configuration record.
\<close>

record config =
  fTPCIdList :: "nat set"
  eVTPC1 :: nat
  fFitFunction :: string
  fMinAcceptableGain :: real
  fMaxAcceptableGain :: real
  fMinHistogramEntries :: nat
  fHistogramBins :: nat
  fHistogramPadding :: real
  fMinPads :: nat
  fMaxPads :: nat
  fMinTimeSliceNumber :: nat
  fMinTimeSlices :: nat
  fMaxTimeSlices :: nat
  fMaxADCCut :: real
  fChargeCut :: real
  fMinADCPeakSearch :: real
  fMinADCPeakSearchVTPC1Upstream :: real

text \<open>
  The detector description (\<open>det::TPC\<close>): chambers, sectors and padrows in the order
  their iterators enumerate them; a padrow has its pad count and the pad gains read from
  the previous calibration.
\<close>

record padrow =
  pr_id :: nat
  pr_npads :: nat
  pr_gain :: "nat \<Rightarrow> dbl"

record sector =
  sec_id :: nat
  sec_padrows :: "padrow list"

record chamber =
  ch_id :: nat
  ch_name :: string
  ch_sectors :: "sector list"

type_synonym detector = "chamber list"

text \<open>One entry of a cluster tree, the branches the loop reads.\<close>

record event =
  fCharge :: dbl
  fMaxADC :: nat
  fTimeSlice :: nat
  fNTimeSlices :: nat
  fNPads :: nat
  fPadrow :: nat
  fPad :: nat

datatype error = NullHistogram | NoSuchPadrow

type_synonym padkey = "nat \<times> nat \<times> nat \<times> nat"

text \<open>
  The minimum charge of the peak search: the upstream sectors 1 and 4 of VTPC1 have
  their own.
\<close>

definition minADCPeakSearch :: "config \<Rightarrow> nat \<Rightarrow> nat \<Rightarrow> real" where
  "minADCPeakSearch cfg tpcId sectorId =
     (if tpcId = eVTPC1 cfg \<and> (sectorId = 1 \<or> sectorId = 4)
      then fMinADCPeakSearchVTPC1Upstream cfg else fMinADCPeakSearch cfg)"

section \<open>Creating the pad histograms\<close>

text \<open>
  One histogram per pad of every chamber in the TPC list, pads numbered from 1
  (first loop nest of \<open>main\<close>). \<open>fSpectraHistograms\<close> is a nest of four unordered maps;
  it is a map from the four identifiers here.
\<close>

definition padHistogram :: "config \<Rightarrow> nat \<Rightarrow> nat \<Rightarrow> hist" where
  "padHistogram cfg tpcId sectorId =
     TH1D (fHistogramBins cfg) 0 (minADCPeakSearch cfg tpcId sectorId * fHistogramPadding cfg)"

definition padrowKeys :: "nat \<Rightarrow> nat \<Rightarrow> padrow \<Rightarrow> padkey list" where
  "padrowKeys tpcId sectorId pr =
     map (\<lambda>padId. (tpcId, sectorId, pr_id pr, padId)) [1 ..< pr_npads pr + 1]"

definition sectorKeys :: "nat \<Rightarrow> sector \<Rightarrow> padkey list" where
  "sectorKeys tpcId s = concat (map (padrowKeys tpcId (sec_id s)) (sec_padrows s))"

definition chamberKeys :: "config \<Rightarrow> chamber \<Rightarrow> padkey list" where
  "chamberKeys cfg c =
     (if ch_id c \<notin> fTPCIdList cfg then []
      else concat (map (sectorKeys (ch_id c)) (ch_sectors c)))"

definition createPadHistograms :: "config \<Rightarrow> detector \<Rightarrow> (padkey \<rightharpoonup> hist)" where
  "createPadHistograms cfg det =
     foldl (\<lambda>m (t, s, r, p). m((t, s, r, p) \<mapsto> padHistogram cfg t s))
       Map.empty (concat (map (chamberKeys cfg) det))"

section \<open>Accumulating events\<close>

text \<open>
  The state of the event loop: the per-sector charge spectra, a pair (no cuts, all cuts)
  per (TPC, sector), and the pad histograms, which are filled after the cuts only. The
  other per-sector quality-assurance histograms (pad occupancy, time slices, charge versus
  maximum ADC, pads versus time slices) are filled at the same two places as the charge
  spectra and are read by the plotting code only.
\<close>

record spectra =
  sectorSpectraHistograms :: "nat \<times> nat \<rightharpoonup> hist \<times> hist"
  fSpectraHistograms :: "padkey \<rightharpoonup> hist"

definition GetPadrow :: "sector \<Rightarrow> nat \<Rightarrow> padrow option" where
  "GetPadrow s padrowId = find (\<lambda>pr. pr_id pr = padrowId) (sec_padrows s)"

text \<open>
  The cluster cuts, in the order of the \<open>continue\<close> statements: true when the event is
  skipped after the no-cuts histograms were filled.
\<close>

definition skipped :: "config \<Rightarrow> event \<Rightarrow> bool" where
  "skipped cfg ev =
     (if deq (fCharge ev) (Fin 0) then True
      else if fNPads ev < fMinPads cfg then True
      else if fNPads ev > fMaxPads cfg then True
      else if fNTimeSlices ev < fMinTimeSlices cfg then True
      else if fNTimeSlices ev > fMaxTimeSlices cfg then True
      else if fTimeSlice ev < fMinTimeSliceNumber cfg then True
      else if dlt (fCharge ev) (Fin (fChargeCut cfg)) \<and> real (fMaxADC ev) < fMaxADCCut cfg
        then True
      else False)"

text \<open>
  The body of the loop over the entries of one tree, whose name gave \<open>tpcId\<close> and the
  sector. \<open>fSpectraHistograms[tpcId][sectorId][padrow][pad]\<close> on a pad that has no
  histogram inserts a null pointer, and \<open>Fill\<close> through it is the error
  \<open>NullHistogram\<close>; so is a missing pair of sector spectra. In update mode the charge is
  scaled by the previous gain of the pad, looked up in the sector; the detector library's
  \<open>GetPadrow\<close> on a padrow the sector does not have is the error \<open>NoSuchPadrow\<close>.
  Nothing in the loop catches either error.
\<close>

definition accumulate ::
  "config \<Rightarrow> bool \<Rightarrow> sector \<Rightarrow> nat \<Rightarrow> event \<Rightarrow> spectra \<Rightarrow> error + spectra" where
  "accumulate cfg updateGains sec tpcId ev st =
     (case sectorSpectraHistograms st (tpcId, sec_id sec) of
        None \<Rightarrow> Inl NullHistogram
      | Some (noCuts, allCuts) \<Rightarrow>
          let st1 = st\<lparr>sectorSpectraHistograms :=
                        (sectorSpectraHistograms st)
                          ((tpcId, sec_id sec) \<mapsto> (Fill noCuts (fCharge ev), allCuts))\<rparr>
          in if skipped cfg ev then Inr st1
             else
               (case (if updateGains
                      then (case GetPadrow sec (fPadrow ev) of
                              None \<Rightarrow> Inl NoSuchPadrow
                            | Some detPadrow \<Rightarrow>
                                Inr (dmul (fCharge ev) (pr_gain detPadrow (fPad ev))))
                      else Inr (fCharge ev)) of
                  Inl e \<Rightarrow> Inl e
                | Inr charge \<Rightarrow>
                    (case fSpectraHistograms st1 (tpcId, sec_id sec, fPadrow ev, fPad ev) of
                       None \<Rightarrow> Inl NullHistogram
                     | Some padHist \<Rightarrow>
                         Inr (st1\<lparr>fSpectraHistograms :=
                                    (fSpectraHistograms st1)
                                      ((tpcId, sec_id sec, fPadrow ev, fPad ev)
                                         \<mapsto> Fill padHist charge),
                                  sectorSpectraHistograms :=
                                    (sectorSpectraHistograms st1)
                                      ((tpcId, sec_id sec)
                                         \<mapsto> (Fill noCuts (fCharge ev),
                                             Fill allCuts charge))\<rparr>))))"

text \<open>The loop over the entries of a tree: the first error ends the run.\<close>

fun accumulateAll ::
  "config \<Rightarrow> bool \<Rightarrow> sector \<Rightarrow> nat \<Rightarrow> event list \<Rightarrow> spectra \<Rightarrow> error + spectra" where
  "accumulateAll cfg updateGains sec tpcId [] st = Inr st"
| "accumulateAll cfg updateGains sec tpcId (ev # evs) st =
     (case accumulate cfg updateGains sec tpcId ev st of
        Inl e \<Rightarrow> Inl e
      | Inr st' \<Rightarrow> accumulateAll cfg updateGains sec tpcId evs st')"

text \<open>
  One tree of an input file: trees of chambers outside the TPC list are skipped whole;
  otherwise the sector's pair of spectra is created on first use
  (\<open>2 * fHistogramBins\<close> bins) and every entry goes through the loop body.
\<close>

definition processTree ::
  "config \<Rightarrow> bool \<Rightarrow> sector \<Rightarrow> nat \<Rightarrow> event list \<Rightarrow> spectra \<Rightarrow> error + spectra" where
  "processTree cfg updateGains sec tpcId evs st =
     (if evs = [] then Inr st
      else if tpcId \<notin> fTPCIdList cfg then Inr st
      else
        let histogramMax = minADCPeakSearch cfg tpcId (sec_id sec) * fHistogramPadding cfg;
            st0 = (case sectorSpectraHistograms st (tpcId, sec_id sec) of
                     Some _ \<Rightarrow> st
                   | None \<Rightarrow>
                       st\<lparr>sectorSpectraHistograms :=
                            (sectorSpectraHistograms st)
                              ((tpcId, sec_id sec) \<mapsto>
                                 (TH1D (2 * fHistogramBins cfg) 0 histogramMax,
                                  TH1D (2 * fHistogramBins cfg) 0 histogramMax))\<rparr>)
        in accumulateAll cfg updateGains sec tpcId evs st0)"

text \<open>
  The acceptance predicate in the words of the specification: charge not zero, pad count
  and time-slice count within their ranges, time slice not below the minimum, and charge
  at least the charge cut or maximum ADC at least the ADC cut.
\<close>

definition acceptance_spec :: "config \<Rightarrow> event \<Rightarrow> bool" where
  "acceptance_spec cfg ev =
     (\<not> deq (fCharge ev) (Fin 0)
      \<and> fMinPads cfg \<le> fNPads ev \<and> fNPads ev \<le> fMaxPads cfg
      \<and> fMinTimeSlices cfg \<le> fNTimeSlices ev \<and> fNTimeSlices ev \<le> fMaxTimeSlices cfg
      \<and> fMinTimeSliceNumber cfg \<le> fTimeSlice ev
      \<and> (dge (fCharge ev) (Fin (fChargeCut cfg)) \<or> fMaxADCCut cfg \<le> real (fMaxADC ev)))"

section \<open>Locating the peak of a pad histogram\<close>

text \<open>
  The second loop nest of \<open>main\<close> visits every pad histogram. \<open>lastBin\<close> is the bin
  count minus one and \<open>maxCharge\<close> the centre of that bin.
\<close>

definition lastBin :: "hist \<Rightarrow> int" where
  "lastBin h = int (h_nbins h) - 1"

definition maxCharge :: "hist \<Rightarrow> real" where
  "maxCharge h = GetBinCenter h (lastBin h)"

record peak =
  maxBin :: nat
  chargePeak :: real
  chargePeakValue :: real

text \<open>
  The search for the peak: \<open>for (int i = 0; i < lastBin; ++i)\<close>, skipping bins whose
  centre is below the minimum search charge and keeping the first bin of strictly larger
  content.
\<close>

definition peakStep :: "real \<Rightarrow> hist \<Rightarrow> peak \<Rightarrow> nat \<Rightarrow> peak" where
  "peakStep minSearch h pk i =
     (let binCenter = GetBinCenter h (int i)
      in if binCenter < minSearch then pk
         else
           let val = GetBinContent h i
           in if val > chargePeakValue pk
              then \<lparr>maxBin = i, chargePeak = binCenter, chargePeakValue = val\<rparr>
              else pk)"

definition findPeak :: "real \<Rightarrow> hist \<Rightarrow> peak" where
  "findPeak minSearch h =
     foldl (peakStep minSearch h)
       \<lparr>maxBin = 0, chargePeak = 0, chargePeakValue = 0\<rparr> [0 ..< nat (lastBin h)]"

text \<open>
  \<open>for (int bin = maxBin; bin > 0; --bin)\<close>: the centre of the first bin, going down,
  whose content is below half the peak value; 0 when the loop ends without one.
\<close>

fun minChargeForFit :: "hist \<Rightarrow> real \<Rightarrow> nat \<Rightarrow> real" where
  "minChargeForFit h peakValue 0 = 0"
| "minChargeForFit h peakValue (Suc b) =
     (if GetBinContent h (Suc b) < 0.5 * peakValue then GetBinCenter h (int (Suc b))
      else minChargeForFit h peakValue b)"

text \<open>
  \<open>for (int bin = maxBin; bin <= lastBin; ++bin)\<close>: the same going up, to \<open>lastBin\<close>
  included.
\<close>

function maxChargeForFit :: "hist \<Rightarrow> real \<Rightarrow> nat \<Rightarrow> real" where
  "maxChargeForFit h peakValue bin =
     (if int bin \<le> lastBin h
      then (if GetBinContent h bin < 0.5 * peakValue then GetBinCenter h (int bin)
            else maxChargeForFit h peakValue (Suc bin))
      else 0)"
  by pat_completeness auto
termination
  by (relation "measure (\<lambda>(h, peakValue, bin). nat (lastBin h + 1 - int bin))") auto

declare maxChargeForFit.simps [simp del]

text \<open>
  The fit functions (ROOT's \<open>TF1\<close>): the formula, the range the fit is restricted to
  (option \<open>R\<close>), the start values of the parameters, the fixed parameters and the limits
  set on parameters. \<open>gaus\<close> is ROOT's Gaussian, with parameters constant, mean and sigma;
  the Fermi formula is \<open>[0]/(1+TMath::Exp([1]*(x-[2])))\<close>.
\<close>

datatype formula = Gaus | Fermi

record tf1 =
  tf_formula :: formula
  tf_xmin :: real
  tf_xmax :: real
  tf_par :: "nat \<Rightarrow> real"
  tf_fixed :: "nat set"
  tf_limits :: "nat \<rightharpoonup> real \<times> real"

definition evalFormula :: "formula \<Rightarrow> (nat \<Rightarrow> real) \<Rightarrow> real \<Rightarrow> real" where
  "evalFormula f p x =
     (case f of
        Gaus \<Rightarrow> p 0 * exp (- 0.5 * ((x - p 1) / p 2) ^ 2)
      | Fermi \<Rightarrow> p 0 / (1 + exp (p 1 * (x - p 2))))"

definition TF1 :: "formula \<Rightarrow> real \<Rightarrow> real \<Rightarrow> tf1" where
  "TF1 f lo hi =
     \<lparr>tf_formula = f, tf_xmin = lo, tf_xmax = hi, tf_par = (\<lambda>_. 0),
      tf_fixed = {}, tf_limits = Map.empty\<rparr>"

definition FixParameter :: "nat \<Rightarrow> real \<Rightarrow> tf1 \<Rightarrow> tf1" where
  "FixParameter i v f = f\<lparr>tf_par := (tf_par f)(i := v), tf_fixed := insert i (tf_fixed f)\<rparr>"

definition SetParameter :: "nat \<Rightarrow> real \<Rightarrow> tf1 \<Rightarrow> tf1" where
  "SetParameter i v f = f\<lparr>tf_par := (tf_par f)(i := v)\<rparr>"

definition SetParLimits :: "nat \<Rightarrow> real \<Rightarrow> real \<Rightarrow> tf1 \<Rightarrow> tf1" where
  "SetParLimits i lo hi f = f\<lparr>tf_limits := (tf_limits f)(i \<mapsto> (lo, hi))\<rparr>"

definition gausFit :: "real \<Rightarrow> hist \<Rightarrow> tf1" where
  "gausFit minSearch h =
     (let pk = findPeak minSearch h
      in TF1 Gaus (minChargeForFit h (chargePeakValue pk) (maxBin pk))
                  (maxChargeForFit h (chargePeakValue pk) (maxBin pk)))"

definition fermiFit :: "real \<Rightarrow> hist \<Rightarrow> tf1" where
  "fermiFit minSearch h =
     (let pk = findPeak minSearch h
      in SetParameter 2 (chargePeak pk)
           (SetParLimits 1 0.0001 1
             (SetParameter 1 0.01
               (FixParameter 0 (chargePeakValue pk)
                 (TF1 Fermi (chargePeak pk) (maxCharge h))))))"

text \<open>
  The minimiser behind \<open>TH1::Fit\<close> belongs to ROOT: it is a parameter \<open>fit\<close>, giving
  for a histogram and a fit function the value of each parameter after the fit.
  A pad with fewer entries than \<open>fMinHistogramEntries\<close> is not fitted; otherwise the
  result is parameter 1 (the mean) of the Gaussian or parameter 2 of the Fermi function.
\<close>

type_synonym fitter = "hist \<Rightarrow> tf1 \<Rightarrow> nat \<Rightarrow> dbl"

definition locatePeak :: "config \<Rightarrow> fitter \<Rightarrow> nat \<Rightarrow> nat \<Rightarrow> hist \<Rightarrow> dbl option" where
  "locatePeak cfg fit tpcId sectorId h =
     (let minSearch = minADCPeakSearch cfg tpcId sectorId
      in if GetEntries h \<ge> fMinHistogramEntries cfg
         then (if fFitFunction cfg = ''Gaussian'' then Some (fit h (gausFit minSearch h) 1)
               else if fFitFunction cfg = ''Fermi'' then Some (fit h (fermiFit minSearch h) 2)
               else None)
         else None)"

section \<open>Sector averages\<close>

text \<open>
  Modelled from the spec: \<open>DEDXTools::SectorAveragers\<close> of the framework's \<open>modutils\<close>
  is not part of the sources. The specification (SectorAverager) describes it: a running
  sum and count per (TPC, sector), created on the first value, the average being sum
  divided by count; a sector that received no value has an undefined average (0/0).
\<close>

type_synonym averagers = "nat \<times> nat \<rightharpoonup> dbl \<times> nat"

definition AddValue :: "nat \<Rightarrow> nat \<Rightarrow> dbl \<Rightarrow> averagers \<Rightarrow> averagers" where
  "AddValue tpcId sectorId v acc =
     acc((tpcId, sectorId) \<mapsto>
           (case acc (tpcId, sectorId) of
              None \<Rightarrow> (v, 1)
            | Some (vsum, n) \<Rightarrow> (dadd vsum v, n + 1)))"

definition GetAverage :: "averagers \<Rightarrow> nat \<Rightarrow> nat \<Rightarrow> dbl" where
  "GetAverage acc tpcId sectorId =
     (case acc (tpcId, sectorId) of
        None \<Rightarrow> ddiv (Fin 0) (Fin 0)
      | Some (vsum, n) \<Rightarrow> ddiv vsum (Fin (real n)))"

text \<open>
  The results of the second loop nest: the located position of each fitted pad and the
  sector accumulators. The pad histograms are visited in the iteration order of the
  unordered maps, which is the order of the list given.
\<close>

record analysis =
  spectrumADCs :: "padkey \<rightharpoonup> dbl"
  totalAccumulators :: averagers

definition analysePad :: "config \<Rightarrow> fitter \<Rightarrow> analysis \<Rightarrow> padkey \<times> hist \<Rightarrow> analysis" where
  "analysePad cfg fit an kh =
     (case kh of ((tpcId, sectorId, padrowId, padId), padHist) \<Rightarrow>
        (case locatePeak cfg fit tpcId sectorId padHist of
           None \<Rightarrow> an
         | Some pos \<Rightarrow>
             an\<lparr>spectrumADCs := (spectrumADCs an)((tpcId, sectorId, padrowId, padId) \<mapsto> pos),
                totalAccumulators := AddValue tpcId sectorId pos (totalAccumulators an)\<rparr>))"

definition analyseAll :: "config \<Rightarrow> fitter \<Rightarrow> (padkey \<times> hist) list \<Rightarrow> analysis" where
  "analyseAll cfg fit pads =
     foldl (analysePad cfg fit) \<lparr>spectrumADCs = Map.empty, totalAccumulators = Map.empty\<rparr> pads"

section \<open>Computing the gains and writing the table\<close>

text \<open>
  The gain file is a sequence of markers and values; the text of a value is what
  \<open>operator<<\<close> prints for the double. The result tree gets one row per \<open>Fill\<close>.
\<close>

datatype token =
    DocOpen | TPCOpen string | SectorOpen nat | PadrowOpen nat | PadGainsOpen
  | GainValue dbl
  | PadGainsClose | PadrowClose | SectorClose | TPCClose | DocClose

record resultRow =
  fTPCId :: nat
  fSectorId :: nat
  fPadrowId :: nat
  fPadId :: nat
  fSpectrumADC :: dbl
  fGain :: dbl

text \<open>
  \<open>spectrumADCs[tpcId][sectorId][padrowId][padId]\<close> on a pad without a located peak
  inserts and yields \<open>0.0\<close>; each pad is read once by the loop, so the insertion is not
  observed by it.
\<close>

definition padADC :: "(padkey \<rightharpoonup> dbl) \<Rightarrow> padkey \<Rightarrow> dbl" where
  "padADC adcs k = (case adcs k of None \<Rightarrow> Fin 0 | Some v \<Rightarrow> v)"

definition computeGain :: "bool \<Rightarrow> dbl \<Rightarrow> dbl \<Rightarrow> dbl \<Rightarrow> dbl" where
  "computeGain updateGains priorGain sectorADC padPeak =
     (if updateGains then ddiv (dmul priorGain sectorADC) padPeak
      else ddiv sectorADC padPeak)"

definition sanitize :: "dbl \<Rightarrow> dbl" where
  "sanitize gain = (if isnan gain \<or> isinf gain then Fin 0 else gain)"

definition acceptable :: "config \<Rightarrow> dbl \<Rightarrow> bool" where
  "acceptable cfg gain =
     (dlt (Fin (fMinAcceptableGain cfg)) gain \<and> dlt gain (Fin (fMaxAcceptableGain cfg)))"

definition tableValue :: "config \<Rightarrow> dbl \<Rightarrow> dbl" where
  "tableValue cfg gain = (if acceptable cfg gain then gain else Fin (- 1))"

text \<open>The body of the pad loop: what it appends to the gain file and to the result tree.\<close>

definition emitPad ::
  "config \<Rightarrow> bool \<Rightarrow> (padkey \<rightharpoonup> dbl) \<Rightarrow> nat \<Rightarrow> nat \<Rightarrow> dbl \<Rightarrow> padrow \<Rightarrow> nat
     \<Rightarrow> token list \<times> resultRow list" where
  "emitPad cfg updateGains adcs tpcId sectorId sectorADC pr padId =
     (let pADC = padADC adcs (tpcId, sectorId, pr_id pr, padId);
          gain = computeGain updateGains (pr_gain pr padId) sectorADC pADC
      in if tpcId \<notin> fTPCIdList cfg then ([], [])
         else ([GainValue (tableValue cfg gain)],
               [\<lparr>fTPCId = tpcId, fSectorId = sectorId, fPadrowId = pr_id pr, fPadId = padId,
                 fSpectrumADC = pADC, fGain = sanitize gain\<rparr>]))"

definition emitPadrow ::
  "config \<Rightarrow> bool \<Rightarrow> (padkey \<rightharpoonup> dbl) \<Rightarrow> nat \<Rightarrow> nat \<Rightarrow> dbl \<Rightarrow> padrow
     \<Rightarrow> token list \<times> resultRow list" where
  "emitPadrow cfg updateGains adcs tpcId sectorId sectorADC pr =
     (let ps = map (emitPad cfg updateGains adcs tpcId sectorId sectorADC pr)
                 [1 ..< pr_npads pr + 1]
      in ([PadrowOpen (pr_id pr), PadGainsOpen] @ concat (map fst ps)
            @ [PadGainsClose, PadrowClose],
          concat (map snd ps)))"

definition emitSector ::
  "config \<Rightarrow> bool \<Rightarrow> analysis \<Rightarrow> nat \<Rightarrow> sector \<Rightarrow> token list \<times> resultRow list" where
  "emitSector cfg updateGains an tpcId s =
     (let sectorADC = GetAverage (totalAccumulators an) tpcId (sec_id s);
          rs = map (emitPadrow cfg updateGains (spectrumADCs an) tpcId (sec_id s) sectorADC)
                 (sec_padrows s)
      in ([SectorOpen (sec_id s)] @ concat (map fst rs) @ [SectorClose],
          concat (map snd rs)))"

definition emitChamber ::
  "config \<Rightarrow> bool \<Rightarrow> analysis \<Rightarrow> chamber \<Rightarrow> token list \<times> resultRow list" where
  "emitChamber cfg updateGains an c =
     (let ss = map (emitSector cfg updateGains an (ch_id c)) (ch_sectors c)
      in ([TPCOpen (ch_name c)] @ concat (map fst ss) @ [TPCClose],
          concat (map snd ss)))"

definition emitGains ::
  "config \<Rightarrow> bool \<Rightarrow> analysis \<Rightarrow> detector \<Rightarrow> token list \<times> resultRow list" where
  "emitGains cfg updateGains an det =
     (let cs = map (emitChamber cfg updateGains an) det
      in ([DocOpen] @ concat (map fst cs) @ [DocClose], concat (map snd cs)))"

section \<open>The gain table in the words of the specification\<close>

text \<open>
  The table as the specification of the writer describes it, to be compared with
  \<open>emitGains\<close>: the geometry is walked in its nesting order with a marker opening and
  closing each level; a pad without a located peak has the value \<open>-1\<close>, any other pad its
  gain when acceptable and \<open>-1\<close> otherwise; the pads of a padrow are written in ascending
  order. Values are written for the chambers of the TPC list.
\<close>

definition padValue_spec :: "config \<Rightarrow> bool \<Rightarrow> analysis \<Rightarrow> nat \<Rightarrow> nat \<Rightarrow> padrow \<Rightarrow> nat \<Rightarrow> dbl" where
  "padValue_spec cfg updateGains an tpcId sectorId pr padId =
     (case spectrumADCs an (tpcId, sectorId, pr_id pr, padId) of
        None \<Rightarrow> Fin (- 1)
      | Some peakPos \<Rightarrow>
          let gain = computeGain updateGains (pr_gain pr padId)
                       (GetAverage (totalAccumulators an) tpcId sectorId) peakPos
          in if acceptable cfg gain then gain else Fin (- 1))"

definition padrowBlock_spec ::
  "config \<Rightarrow> bool \<Rightarrow> analysis \<Rightarrow> nat \<Rightarrow> nat \<Rightarrow> padrow \<Rightarrow> token list" where
  "padrowBlock_spec cfg updateGains an tpcId sectorId pr =
     [PadrowOpen (pr_id pr), PadGainsOpen]
     @ (if tpcId \<in> fTPCIdList cfg
        then map (\<lambda>padId. GainValue (padValue_spec cfg updateGains an tpcId sectorId pr padId))
               [1 ..< pr_npads pr + 1]
        else [])
     @ [PadGainsClose, PadrowClose]"

definition sectorBlock_spec :: "config \<Rightarrow> bool \<Rightarrow> analysis \<Rightarrow> nat \<Rightarrow> sector \<Rightarrow> token list" where
  "sectorBlock_spec cfg updateGains an tpcId s =
     [SectorOpen (sec_id s)]
     @ concat (map (padrowBlock_spec cfg updateGains an tpcId (sec_id s)) (sec_padrows s))
     @ [SectorClose]"

definition chamberBlock_spec :: "config \<Rightarrow> bool \<Rightarrow> analysis \<Rightarrow> chamber \<Rightarrow> token list" where
  "chamberBlock_spec cfg updateGains an c =
     [TPCOpen (ch_name c)]
     @ concat (map (sectorBlock_spec cfg updateGains an (ch_id c)) (ch_sectors c))
     @ [TPCClose]"

definition gainTable_spec :: "config \<Rightarrow> bool \<Rightarrow> analysis \<Rightarrow> detector \<Rightarrow> token list" where
  "gainTable_spec cfg updateGains an det =
     [DocOpen] @ concat (map (chamberBlock_spec cfg updateGains an) det) @ [DocClose]"

text \<open>The block structure of a chamber alone: every marker, no value.\<close>

definition padrowMarkers :: "padrow \<Rightarrow> token list" where
  "padrowMarkers pr = [PadrowOpen (pr_id pr), PadGainsOpen, PadGainsClose, PadrowClose]"

definition sectorMarkers :: "sector \<Rightarrow> token list" where
  "sectorMarkers s =
     [SectorOpen (sec_id s)] @ concat (map padrowMarkers (sec_padrows s)) @ [SectorClose]"

definition chamberMarkers :: "chamber \<Rightarrow> token list" where
  "chamberMarkers c =
     [TPCOpen (ch_name c)] @ concat (map sectorMarkers (ch_sectors c)) @ [TPCClose]"

fun isValue :: "token \<Rightarrow> bool" where
  "isValue (GainValue v) = True"
| "isValue _ = False"

text \<open>
  The written value in the words of the specification's numeric guard: the gain is
  coerced first and the acceptability check sees the coerced value.
\<close>

definition tableValue_spec :: "config \<Rightarrow> dbl \<Rightarrow> dbl" where
  "tableValue_spec cfg gain =
     (let g = sanitize gain in if acceptable cfg g then g else Fin (- 1))"

text \<open>The number of values a sector accumulator has received.\<close>

definition contributions :: "averagers \<Rightarrow> nat \<Rightarrow> nat \<Rightarrow> nat" where
  "contributions acc tpcId sectorId =
     (case acc (tpcId, sectorId) of None \<Rightarrow> 0 | Some (vsum, n) \<Rightarrow> n)"

section \<open>Example inputs\<close>

text \<open>
  A configuration that calibrates the chamber with identifier 1 only, a detector of two
  chambers with one sector and one padrow of three pads each, and events of that padrow.
\<close>

definition exCfg :: config where
  "exCfg = \<lparr>fTPCIdList = {1}, eVTPC1 = 1, fFitFunction = ''Gaussian'',
     fMinAcceptableGain = 0.5, fMaxAcceptableGain = 1.5, fMinHistogramEntries = 10,
     fHistogramBins = 4, fHistogramPadding = 4, fMinPads = 2, fMaxPads = 5,
     fMinTimeSliceNumber = 10, fMinTimeSlices = 2, fMaxTimeSlices = 6,
     fMaxADCCut = 50, fChargeCut = 100, fMinADCPeakSearch = 2,
     fMinADCPeakSearchVTPC1Upstream = 2\<rparr>"

text \<open>The same configuration with a negative lower bound of the acceptable gains.\<close>

definition exCfgNeg :: config where
  "exCfgNeg = exCfg\<lparr>fMinAcceptableGain := - 1, fMaxAcceptableGain := 2\<rparr>"

definition exPadrow :: padrow where
  "exPadrow = \<lparr>pr_id = 1, pr_npads = 3, pr_gain = (\<lambda>_. Fin 2)\<rparr>"

definition exSector :: sector where
  "exSector = \<lparr>sec_id = 1, sec_padrows = [exPadrow]\<rparr>"

definition exChamber1 :: chamber where
  "exChamber1 = \<lparr>ch_id = 1, ch_name = ''VTPC1'', ch_sectors = [exSector]\<rparr>"

definition exChamber2 :: chamber where
  "exChamber2 = \<lparr>ch_id = 2, ch_name = ''VTPC2'', ch_sectors = [exSector]\<rparr>"

definition exDet :: detector where
  "exDet = [exChamber1, exChamber2]"

definition exEvent :: "dbl \<Rightarrow> nat \<Rightarrow> nat \<Rightarrow> event" where
  "exEvent c npads pad =
     \<lparr>fCharge = c, fMaxADC = 20, fTimeSlice = 30, fNTimeSlices = 3,
      fNPads = npads, fPadrow = 1, fPad = pad\<rparr>"

definition exSpectra :: spectra where
  "exSpectra =
     \<lparr>sectorSpectraHistograms = [(1, 1) \<mapsto> (TH1D 8 0 8, TH1D 8 0 8)],
      fSpectraHistograms = createPadHistograms exCfg exDet\<rparr>"

definition exStart :: spectra where
  "exStart =
     \<lparr>sectorSpectraHistograms = Map.empty,
      fSpectraHistograms = createPadHistograms exCfg exDet\<rparr>"

text \<open>
  A pad histogram of four bins on [0, 8], of centres 1, 3, 5 and 7, with contents
  1, 3, 5 and 9 and 18 entries.
\<close>

definition exHist :: hist where
  "exHist = \<lparr>h_nbins = 4, h_xmin = 0, h_xmax = 8, h_cells = [0, 1, 3, 5, 9, 0],
             h_entries = 18\<rparr>"

text \<open>The example configuration with the Fermi function selected.\<close>

definition exCfgFermi :: config where
  "exCfgFermi = exCfg\<lparr>fFitFunction := ''Fermi''\<rparr>"

definition exFit :: fitter where
  "exFit h f i = Fin (tf_xmin f)"

definition exAnalysis :: analysis where
  "exAnalysis =
     \<lparr>spectrumADCs = [(1, 1, 1, 1) \<mapsto> Fin 50, (1, 1, 1, 2) \<mapsto> Fin 150],
      totalAccumulators = [(1, 1) \<mapsto> (Fin 200, 2)]\<rparr>"

definition exNoAnalysis :: analysis where
  "exNoAnalysis = \<lparr>spectrumADCs = Map.empty, totalAccumulators = Map.empty\<rparr>"

section \<open>Facts about the event loop\<close>

lemma skipped_iff:
  "\<not> isnan (fCharge ev) \<Longrightarrow> skipped cfg ev = (\<not> acceptance_spec cfg ev)"
  by (cases "fCharge ev") (auto simp: skipped_def acceptance_spec_def dge_def)

lemma Fill_neq: "Fill h x \<noteq> h"
proof
  assume "Fill h x = h"
  then have "h_entries (Fill h x) = h_entries h" by simp
  then show False by (simp add: Fill_def Let_def)
qed

lemma accumulate_skipped:
  assumes "sectorSpectraHistograms st (tpcId, sec_id sec) = Some (noCuts, allCuts)"
    and "skipped cfg ev"
  shows "accumulate cfg updateGains sec tpcId ev st =
     Inr (st\<lparr>sectorSpectraHistograms :=
               (sectorSpectraHistograms st)
                 ((tpcId, sec_id sec) \<mapsto> (Fill noCuts (fCharge ev), allCuts))\<rparr>)"
  using assms by (simp add: accumulate_def Let_def)

lemma accumulate_filled:
  assumes "sectorSpectraHistograms st (tpcId, sec_id sec) = Some (noCuts, allCuts)"
    and "fSpectraHistograms st (tpcId, sec_id sec, fPadrow ev, fPad ev) = Some padHist"
    and "\<not> skipped cfg ev"
    and "updateGains \<longrightarrow> GetPadrow sec (fPadrow ev) = Some detPadrow"
    and "charge = (if updateGains then dmul (fCharge ev) (pr_gain detPadrow (fPad ev))
                   else fCharge ev)"
  shows "accumulate cfg updateGains sec tpcId ev st =
     Inr (st\<lparr>fSpectraHistograms :=
               (fSpectraHistograms st)
                 ((tpcId, sec_id sec, fPadrow ev, fPad ev) \<mapsto> Fill padHist charge),
             sectorSpectraHistograms :=
               (sectorSpectraHistograms st)
                 ((tpcId, sec_id sec) \<mapsto> (Fill noCuts (fCharge ev), Fill allCuts charge))\<rparr>)"
  using assms by (auto simp: accumulate_def Let_def)

lemma accumulate_unknown_pad:
  assumes "sectorSpectraHistograms st (tpcId, sec_id sec) = Some (noCuts, allCuts)"
    and "fSpectraHistograms st (tpcId, sec_id sec, fPadrow ev, fPad ev) = None"
    and "\<not> skipped cfg ev"
  shows "accumulate cfg False sec tpcId ev st = Inl NullHistogram"
  using assms by (simp add: accumulate_def Let_def)

lemma exHists:
  "createPadHistograms exCfg exDet (1, 1, 1, 0) = None"
  "createPadHistograms exCfg exDet (1, 1, 1, 1) = Some (TH1D 4 0 8)"
  "createPadHistograms exCfg exDet (1, 1, 1, 4) = None"
  by (simp_all add: createPadHistograms_def exCfg_def exDet_def exChamber1_def exChamber2_def
        chamberKeys_def sectorKeys_def padrowKeys_def exSector_def exPadrow_def
        padHistogram_def minADCPeakSearch_def upt_rec)

section \<open>Facts about the gain table\<close>

lemma acceptable_finite:
  "acceptable cfg g \<Longrightarrow> \<exists>r. g = Fin r \<and> fMinAcceptableGain cfg < r \<and> r < fMaxAcceptableGain cfg"
  by (cases g) (auto simp: acceptable_def)

lemma acceptable_Fin [simp]:
  "acceptable cfg (Fin r) = (fMinAcceptableGain cfg < r \<and> r < fMaxAcceptableGain cfg)"
  by (simp add: acceptable_def)

lemma not_acceptable_special:
  "isnan g \<or> isinf g \<Longrightarrow> \<not> acceptable cfg g"
  by (cases g) (auto simp: acceptable_def)

lemma ddiv_zero_special: "isnan (ddiv x (Fin 0)) \<or> isinf (ddiv x (Fin 0))"
  by (cases x) auto

lemma computeGain_no_peak:
  "tableValue cfg (computeGain updateGains prior sectorADC (Fin 0)) = Fin (- 1)"
  using ddiv_zero_special not_acceptable_special
  by (simp add: tableValue_def computeGain_def)

lemma tableValue_cases:
  "tableValue cfg g = Fin (- 1) \<or>
   (\<exists>r. tableValue cfg g = Fin r \<and> fMinAcceptableGain cfg < r \<and> r < fMaxAcceptableGain cfg)"
  using acceptable_finite[of cfg g] by (auto simp: tableValue_def)

lemma emitPad_listed:
  "tpcId \<in> fTPCIdList cfg \<Longrightarrow>
   emitPad cfg updateGains adcs tpcId sectorId sectorADC pr padId =
     ([GainValue (tableValue cfg (computeGain updateGains (pr_gain pr padId) sectorADC
                                    (padADC adcs (tpcId, sectorId, pr_id pr, padId))))],
      [\<lparr>fTPCId = tpcId, fSectorId = sectorId, fPadrowId = pr_id pr, fPadId = padId,
        fSpectrumADC = padADC adcs (tpcId, sectorId, pr_id pr, padId),
        fGain = sanitize (computeGain updateGains (pr_gain pr padId) sectorADC
                            (padADC adcs (tpcId, sectorId, pr_id pr, padId)))\<rparr>])"
  by (simp add: emitPad_def Let_def)

lemma emitPad_unlisted:
  "tpcId \<notin> fTPCIdList cfg \<Longrightarrow>
   emitPad cfg updateGains adcs tpcId sectorId sectorADC pr padId = ([], [])"
  by (simp add: emitPad_def Let_def)

lemma padValue_spec_eq:
  "tableValue cfg (computeGain updateGains (pr_gain pr padId)
       (GetAverage (totalAccumulators an) tpcId sectorId)
       (padADC (spectrumADCs an) (tpcId, sectorId, pr_id pr, padId)))
   = padValue_spec cfg updateGains an tpcId sectorId pr padId"
proof (cases "spectrumADCs an (tpcId, sectorId, pr_id pr, padId)")
  case None
  then show ?thesis
    by (simp add: padValue_spec_def padADC_def computeGain_no_peak)
next
  case (Some v)
  then show ?thesis
    by (simp add: padValue_spec_def padADC_def tableValue_def Let_def)
qed

lemma emitPadrow_tokens:
  "fst (emitPadrow cfg updateGains (spectrumADCs an) tpcId sectorId
          (GetAverage (totalAccumulators an) tpcId sectorId) pr)
   = padrowBlock_spec cfg updateGains an tpcId sectorId pr"
  by (cases "tpcId \<in> fTPCIdList cfg")
     (simp_all add: emitPadrow_def padrowBlock_spec_def Let_def emitPad_listed emitPad_unlisted
        comp_def padValue_spec_eq)

lemma emitSector_tokens:
  "fst (emitSector cfg updateGains an tpcId s) = sectorBlock_spec cfg updateGains an tpcId s"
  by (simp add: emitSector_def sectorBlock_spec_def Let_def comp_def emitPadrow_tokens)

lemma emitChamber_tokens:
  "fst (emitChamber cfg updateGains an c) = chamberBlock_spec cfg updateGains an c"
  by (simp add: emitChamber_def chamberBlock_spec_def Let_def comp_def emitSector_tokens)

lemma emitGains_tokens:
  "fst (emitGains cfg updateGains an det) = gainTable_spec cfg updateGains an det"
  by (simp add: emitGains_def gainTable_spec_def Let_def comp_def emitChamber_tokens)

lemma padValue_spec_cases:
  "padValue_spec cfg updateGains an tpcId sectorId pr padId = Fin (- 1) \<or>
   (\<exists>r. padValue_spec cfg updateGains an tpcId sectorId pr padId = Fin r
        \<and> fMinAcceptableGain cfg < r \<and> r < fMaxAcceptableGain cfg)"
  using tableValue_cases[of cfg] unfolding padValue_spec_eq[symmetric] by blast

lemma table_values:
  assumes "GainValue v \<in> set (gainTable_spec cfg updateGains an det)"
  shows "v = Fin (- 1) \<or> (\<exists>r. v = Fin r \<and> fMinAcceptableGain cfg < r \<and> r < fMaxAcceptableGain cfg)"
  using assms padValue_spec_cases[of cfg updateGains an]
  by (auto simp: gainTable_spec_def chamberBlock_spec_def sectorBlock_spec_def
        padrowBlock_spec_def split: if_splits)

lemma markers_padrow:
  "filter (\<lambda>t. \<not> isValue t) (padrowBlock_spec cfg updateGains an tpcId sectorId pr) = padrowMarkers pr"
  by (simp add: padrowBlock_spec_def padrowMarkers_def filter_map comp_def)

lemma markers_sector:
  "filter (\<lambda>t. \<not> isValue t) (sectorBlock_spec cfg updateGains an tpcId s) = sectorMarkers s"
  by (simp add: sectorBlock_spec_def sectorMarkers_def filter_concat comp_def markers_padrow)

lemma markers_chamber:
  "filter (\<lambda>t. \<not> isValue t) (chamberBlock_spec cfg updateGains an c) = chamberMarkers c"
  by (simp add: chamberBlock_spec_def chamberMarkers_def filter_concat comp_def markers_sector)

lemma markers_table:
  "filter (\<lambda>t. \<not> isValue t) (gainTable_spec cfg updateGains an det)
     = [DocOpen] @ concat (map chamberMarkers det) @ [DocClose]"
  by (simp add: gainTable_spec_def filter_concat comp_def markers_chamber)

lemma exSpectra_facts:
  "sectorSpectraHistograms exSpectra (1, sec_id exSector) = Some (TH1D 8 0 8, TH1D 8 0 8)"
  "fSpectraHistograms exSpectra (1, sec_id exSector, fPadrow (exEvent c n 1), fPad (exEvent c n 1)) = Some (TH1D 4 0 8)"
  using exHists by (simp_all add: exSpectra_def exSector_def exEvent_def)

section \<open>Claims about the event loop\<close>

text \<open>
  C1 (as amended). The sources keep the no-cuts spectrum per sector and fill the pad
  histogram after the cuts only. For every entry of a tree whose charge is not NaN and
  whose pad has a histogram, the loop body fills the sector's no-cuts spectrum with the
  entry's charge in every case, and fills the pad histogram and the sector's all-cuts
  spectrum if and only if the acceptance predicate of the specification holds (charge not
  zero, pad count and time-slice count in their ranges, time slice at least the minimum,
  and charge at least the charge cut or maximum ADC at least the ADC cut); otherwise both
  stay as they were. A fill changes a histogram, and an entry with one pad less than
  \<open>fMinPads\<close> is never accepted. In update mode the filled value is the charge scaled by
  the pad's previous gain.
\<close>

theorem accumulate_cuts:
  assumes sec: "sectorSpectraHistograms st (tpcId, sec_id sec) = Some (noCuts, allCuts)"
    and pad: "fSpectraHistograms st (tpcId, sec_id sec, fPadrow ev, fPad ev) = Some padHist"
    and num: "\<not> isnan (fCharge ev)"
    and upd: "updateGains \<longrightarrow> GetPadrow sec (fPadrow ev) = Some detPadrow"
    and ch: "charge = (if updateGains then dmul (fCharge ev) (pr_gain detPadrow (fPad ev))
                       else fCharge ev)"
  shows "accumulate cfg updateGains sec tpcId ev st =
      Inr (if acceptance_spec cfg ev
           then st\<lparr>fSpectraHistograms :=
                     (fSpectraHistograms st)
                       ((tpcId, sec_id sec, fPadrow ev, fPad ev) \<mapsto> Fill padHist charge),
                   sectorSpectraHistograms :=
                     (sectorSpectraHistograms st)
                       ((tpcId, sec_id sec) \<mapsto> (Fill noCuts (fCharge ev), Fill allCuts charge))\<rparr>
           else st\<lparr>sectorSpectraHistograms :=
                     (sectorSpectraHistograms st)
                       ((tpcId, sec_id sec) \<mapsto> (Fill noCuts (fCharge ev), allCuts))\<rparr>)
     \<and> Fill padHist charge \<noteq> padHist \<and> Fill allCuts charge \<noteq> allCuts
     \<and> (fNPads ev + 1 = fMinPads cfg \<longrightarrow> \<not> acceptance_spec cfg ev)"
proof (cases "skipped cfg ev")
  case True
  then have "\<not> acceptance_spec cfg ev" using skipped_iff[OF num] by simp
  then show ?thesis
    using accumulate_skipped[OF sec True] by (simp add: Fill_neq)
next
  case False
  then have a: "acceptance_spec cfg ev" using skipped_iff[OF num] by simp
  then have "fNPads ev + 1 \<noteq> fMinPads cfg" by (auto simp: acceptance_spec_def)
  then show ?thesis
    using accumulate_filled[OF sec pad False upd ch] a by (simp add: Fill_neq)
qed

text \<open>
  At the boundary: with \<open>fMinPads = 2\<close>, an entry of two pads is filled into the pad
  histogram and an entry of one pad is not, and both reach the no-cuts spectrum.
\<close>

theorem accumulate_cuts_witness:
  "accumulate exCfg False exSector 1 (exEvent (Fin 150) 2 1) exSpectra =
     Inr (exSpectra\<lparr>fSpectraHistograms :=
                      (fSpectraHistograms exSpectra)((1, 1, 1, 1) \<mapsto> Fill (TH1D 4 0 8) (Fin 150)),
                    sectorSpectraHistograms :=
                      (sectorSpectraHistograms exSpectra)
                        ((1, 1) \<mapsto> (Fill (TH1D 8 0 8) (Fin 150), Fill (TH1D 8 0 8) (Fin 150)))\<rparr>)
   \<and> accumulate exCfg False exSector 1 (exEvent (Fin 150) 1 1) exSpectra =
     Inr (exSpectra\<lparr>sectorSpectraHistograms :=
                      (sectorSpectraHistograms exSpectra)
                        ((1, 1) \<mapsto> (Fill (TH1D 8 0 8) (Fin 150), TH1D 8 0 8))\<rparr>)"
proof -
  have n: "\<not> isnan (fCharge (exEvent (Fin 150) n 1))" for n by (simp add: exEvent_def)
  have a2: "acceptance_spec exCfg (exEvent (Fin 150) 2 1)"
    by (simp add: acceptance_spec_def exCfg_def exEvent_def dge_def)
  have a1: "\<not> acceptance_spec exCfg (exEvent (Fin 150) 1 1)"
    by (simp add: acceptance_spec_def exCfg_def exEvent_def dge_def)
  show ?thesis
    using accumulate_cuts[OF exSpectra_facts(1) exSpectra_facts(2)[of "Fin 150" 2] n[of 2],
        where cfg = exCfg and updateGains = False and detPadrow = exPadrow
          and charge = "Fin 150"]
      accumulate_cuts[OF exSpectra_facts(1) exSpectra_facts(2)[of "Fin 150" 1] n[of 1],
        where cfg = exCfg and updateGains = False and detPadrow = exPadrow
          and charge = "Fin 150"] a1 a2
    by (simp add: exEvent_def exSector_def)
qed

text \<open>
  C1 as stated fails on a NaN charge: \<open>fCharge < fChargeCut\<close> is false for NaN, so the
  entry is not skipped although neither the charge reaches the charge cut nor the maximum
  ADC (20) the ADC cut (50), and the pad histogram is filled.
\<close>

theorem accumulate_nan_counterexample:
  "\<not> acceptance_spec exCfg (exEvent NaN 3 1)
   \<and> accumulate exCfg False exSector 1 (exEvent NaN 3 1) exSpectra =
     Inr (exSpectra\<lparr>fSpectraHistograms :=
                      (fSpectraHistograms exSpectra)((1, 1, 1, 1) \<mapsto> Fill (TH1D 4 0 8) NaN),
                    sectorSpectraHistograms :=
                      (sectorSpectraHistograms exSpectra)
                        ((1, 1) \<mapsto> (Fill (TH1D 8 0 8) NaN, Fill (TH1D 8 0 8) NaN))\<rparr>)"
proof -
  have a: "\<not> acceptance_spec exCfg (exEvent NaN 3 1)"
    by (simp add: acceptance_spec_def exCfg_def exEvent_def dge_def)
  have s: "\<not> skipped exCfg (exEvent NaN 3 1)"
    by (simp add: skipped_def exCfg_def exEvent_def)
  have e: "sec_id exSector = 1" "fPadrow (exEvent NaN 3 1) = 1" "fPad (exEvent NaN 3 1) = 1"
     "fCharge (exEvent NaN 3 1) = NaN"
    by (simp_all add: exSector_def exEvent_def)
  show ?thesis
    using a accumulate_filled[OF exSpectra_facts(1) exSpectra_facts(2)[of NaN 3] s,
        where updateGains = False and detPadrow = exPadrow and charge = NaN]
    by (simp add: exEvent_def exSector_def)
qed

text \<open>
  C8. An entry whose pad has no histogram is not dropped: with pad number 0 in a padrow
  of pads 1 to 3, and all cuts passed, the lookup in \<open>fSpectraHistograms\<close> yields a null
  pointer and the run ends there; the entry after it is not processed.
\<close>

theorem unknown_pad_null_histogram:
  "processTree exCfg False exSector 1 [exEvent (Fin 150) 3 0, exEvent (Fin 150) 3 1] exStart
     = Inl NullHistogram"
proof -
  have l: "1 \<in> fTPCIdList exCfg" by (simp add: exCfg_def)
  have p: "fPadrow (exEvent (Fin 150) 3 0) = 1" "fPad (exEvent (Fin 150) 3 0) = 0"
      "sec_id exSector = 1"
    by (simp_all add: exEvent_def exSector_def)
  have s: "\<not> skipped exCfg (exEvent (Fin 150) 3 0)"
    by (simp add: skipped_def exCfg_def exEvent_def)
  show ?thesis
    using l p s exHists(1)
    by (simp add: processTree_def exStart_def Let_def accumulate_unknown_pad)
qed

section \<open>Facts about the gain computation\<close>

lemma sanitize_Fin [simp]: "sanitize (Fin r) = Fin r"
  by (simp add: sanitize_def)

lemma sanitize_special: "isnan g \<or> isinf g \<Longrightarrow> sanitize g = Fin 0"
  by (simp add: sanitize_def)

lemma acceptable_iff:
  "acceptable cfg g = (\<exists>r. g = Fin r \<and> fMinAcceptableGain cfg < r \<and> r < fMaxAcceptableGain cfg)"
  by (cases g) (auto simp: acceptable_def)

lemma exAnalysis_facts:
  "spectrumADCs exAnalysis (1, 1, pr_id exPadrow, 1) = Some (Fin 50)"
  "GetAverage (totalAccumulators exAnalysis) 1 1 = Fin 100"
  "1 \<in> fTPCIdList exCfg"
  by (simp_all add: exAnalysis_def exPadrow_def GetAverage_def exCfg_def)

section \<open>Claims about the gain computation\<close>

text \<open>
  C2. For a pad of a calibrated chamber with a located peak, the gain the pad loop
  computes is the sector average divided by the pad's peak when gains are not updated,
  and the previous gain times the sector average divided by the peak when they are; it is
  the gain whose table value is written and whose sanitized value is stored in the result
  tree. For finite numbers and a peak that is not zero this is \<open>a / p\<close>, respectively
  \<open>g * a / p\<close>, in real arithmetic.
\<close>

theorem computeGain_formula:
  assumes peak: "spectrumADCs an (tpcId, sectorId, pr_id pr, padId) = Some padPeak"
    and listed: "tpcId \<in> fTPCIdList cfg"
    and avg: "sectorADC = GetAverage (totalAccumulators an) tpcId sectorId"
    and gain: "gain = (if updateGains then ddiv (dmul (pr_gain pr padId) sectorADC) padPeak
                       else ddiv sectorADC padPeak)"
  shows "emitPad cfg updateGains (spectrumADCs an) tpcId sectorId sectorADC pr padId =
           ([GainValue (tableValue cfg gain)],
            [\<lparr>fTPCId = tpcId, fSectorId = sectorId, fPadrowId = pr_id pr, fPadId = padId,
              fSpectrumADC = padPeak, fGain = sanitize gain\<rparr>])
     \<and> computeGain updateGains (pr_gain pr padId) sectorADC padPeak = gain
     \<and> (\<forall>a p g. p \<noteq> 0 \<and> sectorADC = Fin a \<and> padPeak = Fin p \<and> pr_gain pr padId = Fin g
            \<longrightarrow> gain = (if updateGains then Fin (g * a / p) else Fin (a / p)))"
  using assms by (auto simp: emitPad_listed padADC_def computeGain_def)

text \<open>
  With sector average 100, pad peak 50 and previous gain 2 the updated gain is 4 (and 2
  without update); the pad loop stores it in the result tree.
\<close>

theorem computeGain_formula_witness:
  "computeGain True (Fin 2) (Fin 100) (Fin 50) = Fin 4
   \<and> computeGain False (Fin 2) (Fin 100) (Fin 50) = Fin 2
   \<and> emitPad exCfg True (spectrumADCs exAnalysis) 1 1 (Fin 100) exPadrow 1 =
       ([GainValue (Fin (- 1))],
        [\<lparr>fTPCId = 1, fSectorId = 1, fPadrowId = 1, fPadId = 1,
          fSpectrumADC = Fin 50, fGain = Fin 4\<rparr>])"
  using computeGain_formula[OF exAnalysis_facts(1) exAnalysis_facts(3) exAnalysis_facts(2)[symmetric],
      where updateGains = True and gain = "Fin 4"]
    computeGain_formula[OF exAnalysis_facts(1) exAnalysis_facts(3) exAnalysis_facts(2)[symmetric],
      where updateGains = False and gain = "Fin 2"]
  by (simp add: exPadrow_def tableValue_def exCfg_def)

text \<open>
  C3 (as amended). For every pad of a chamber in the TPC list: the acceptability check is
  applied to the gain as computed, not to the coerced one; it is strict on both bounds,
  so a gain equal to \<open>fMinAcceptableGain\<close> or to \<open>fMaxAcceptableGain\<close> is not
  acceptable and a finite gain strictly between them is; a NaN or infinite gain is never
  acceptable. The table receives the gain when it is acceptable and \<open>-1\<close> otherwise, and
  the result tree receives the gain with NaN and the infinities coerced to 0, whether
  acceptable or not.
\<close>

theorem gain_guards:
  assumes listed: "tpcId \<in> fTPCIdList cfg"
    and gain: "gain = computeGain updateGains (pr_gain pr padId) sectorADC
                        (padADC adcs (tpcId, sectorId, pr_id pr, padId))"
  shows "emitPad cfg updateGains adcs tpcId sectorId sectorADC pr padId =
           ([GainValue (if acceptable cfg gain then gain else Fin (- 1))],
            [\<lparr>fTPCId = tpcId, fSectorId = sectorId, fPadrowId = pr_id pr, fPadId = padId,
              fSpectrumADC = padADC adcs (tpcId, sectorId, pr_id pr, padId),
              fGain = (if isnan gain \<or> isinf gain then Fin 0 else gain)\<rparr>])
     \<and> acceptable cfg gain =
         (\<exists>r. gain = Fin r \<and> fMinAcceptableGain cfg < r \<and> r < fMaxAcceptableGain cfg)
     \<and> \<not> acceptable cfg (Fin (fMinAcceptableGain cfg))
     \<and> \<not> acceptable cfg (Fin (fMaxAcceptableGain cfg))
     \<and> (isnan gain \<or> isinf gain \<longrightarrow> \<not> acceptable cfg gain)"
proof -
  have e: "emitPad cfg updateGains adcs tpcId sectorId sectorADC pr padId =
           ([GainValue (if acceptable cfg gain then gain else Fin (- 1))],
            [\<lparr>fTPCId = tpcId, fSectorId = sectorId, fPadrowId = pr_id pr, fPadId = padId,
              fSpectrumADC = padADC adcs (tpcId, sectorId, pr_id pr, padId),
              fGain = (if isnan gain \<or> isinf gain then Fin 0 else gain)\<rparr>])"
    unfolding gain by (simp add: emitPad_listed[OF listed] tableValue_def sanitize_def)
  have b: "\<not> acceptable cfg (Fin (fMinAcceptableGain cfg))"
    "\<not> acceptable cfg (Fin (fMaxAcceptableGain cfg))"
    by simp_all
  show ?thesis
    using e b acceptable_iff[of cfg gain] not_acceptable_special[of gain cfg] by blast
qed

text \<open>
  A pad without a located peak has gain \<open>100 / 0\<close>: the table gets \<open>-1\<close> and the tree 0.
  A pad with peak 150 has gain \<open>2/3\<close>, which is acceptable and goes to both.
\<close>

theorem gain_guards_witness:
  "emitPad exCfg False Map.empty 1 1 (Fin 100) exPadrow 1 =
     ([GainValue (Fin (- 1))],
      [\<lparr>fTPCId = 1, fSectorId = 1, fPadrowId = 1, fPadId = 1,
        fSpectrumADC = Fin 0, fGain = Fin 0\<rparr>])
   \<and> emitPad exCfg False (spectrumADCs exAnalysis) 1 1 (Fin 100) exPadrow 2 =
     ([GainValue (Fin (2 / 3))],
      [\<lparr>fTPCId = 1, fSectorId = 1, fPadrowId = 1, fPadId = 2,
        fSpectrumADC = Fin 150, fGain = Fin (2 / 3)\<rparr>])"
proof -
  have g1: "PInf = computeGain False (pr_gain exPadrow 1) (Fin 100)
                     (padADC Map.empty (1, 1, pr_id exPadrow, 1))"
    by (simp add: computeGain_def padADC_def)
  have g2: "Fin (2 / 3) = computeGain False (pr_gain exPadrow 2) (Fin 100)
                     (padADC (spectrumADCs exAnalysis) (1, 1, pr_id exPadrow, 2))"
    by (simp add: computeGain_def padADC_def exAnalysis_def exPadrow_def)
  have p: "padADC (spectrumADCs exAnalysis) (1, 1, pr_id exPadrow, 2) = Fin 150"
    by (simp add: padADC_def exAnalysis_def exPadrow_def)
  show ?thesis
    using gain_guards[OF exAnalysis_facts(3) g1] gain_guards[OF exAnalysis_facts(3) g2] p
    by (simp add: exPadrow_def padADC_def exCfg_def)
qed

text \<open>
  C3 as stated fails when 0 lies between the bounds: with bounds \<open>-1\<close> and 2, coercing
  the infinite gain \<open>100 / 0\<close> to 0 before the check would make it acceptable and put 0
  into the table; the pad loop writes \<open>-1\<close>. It also fails for a pad of a chamber
  outside the TPC list: its gain, here \<open>100 / 100\<close>, is computed and is acceptable, but
  neither the table nor the result tree receives anything.
\<close>

theorem coerce_before_check_counterexample:
  "tableValue_spec exCfgNeg (computeGain False (Fin 2) (Fin 100) (Fin 0)) = Fin 0
   \<and> emitPad exCfgNeg False Map.empty 1 1 (Fin 100) exPadrow 1 =
     ([GainValue (Fin (- 1))],
      [\<lparr>fTPCId = 1, fSectorId = 1, fPadrowId = 1, fPadId = 1,
        fSpectrumADC = Fin 0, fGain = Fin 0\<rparr>])
   \<and> computeGain False (Fin 2) (Fin 100) (Fin 100) = Fin 1
   \<and> acceptable exCfgNeg (Fin 1)
   \<and> emitPad exCfgNeg False [(2, 1, 1, 1) \<mapsto> Fin 100] 2 1 (Fin 100) exPadrow 1 = ([], [])"
  by (simp add: tableValue_spec_def computeGain_def sanitize_def acceptable_def exCfgNeg_def
        exCfg_def emitPad_def padADC_def exPadrow_def tableValue_def Let_def)

section \<open>Facts about the rows of the result tree and empty sectors\<close>

lemma emitPad_rows:
  "row \<in> set (snd (emitPad cfg updateGains adcs tpcId sectorId sectorADC pr padId))
   \<Longrightarrow> fTPCId row = tpcId \<and> tpcId \<in> fTPCIdList cfg"
  by (auto simp: emitPad_def Let_def split: if_splits)

lemma emitPadrow_rows:
  "row \<in> set (snd (emitPadrow cfg updateGains adcs tpcId sectorId sectorADC pr))
   \<Longrightarrow> fTPCId row = tpcId \<and> tpcId \<in> fTPCIdList cfg"
  using emitPad_rows by (fastforce simp: emitPadrow_def Let_def)

lemma emitSector_rows:
  "row \<in> set (snd (emitSector cfg updateGains an tpcId s))
   \<Longrightarrow> fTPCId row = tpcId \<and> tpcId \<in> fTPCIdList cfg"
  using emitPadrow_rows by (fastforce simp: emitSector_def Let_def)

lemma emitChamber_rows:
  "row \<in> set (snd (emitChamber cfg updateGains an c))
   \<Longrightarrow> fTPCId row = ch_id c \<and> ch_id c \<in> fTPCIdList cfg"
  using emitSector_rows by (fastforce simp: emitChamber_def Let_def)

lemma emitGains_rows:
  "row \<in> set (snd (emitGains cfg updateGains an det)) \<Longrightarrow> fTPCId row \<in> fTPCIdList cfg"
  using emitChamber_rows by (fastforce simp: emitGains_def Let_def)

lemma emitPadrow_unlisted:
  "tpcId \<notin> fTPCIdList cfg \<Longrightarrow>
   emitPadrow cfg updateGains adcs tpcId sectorId sectorADC pr = (padrowMarkers pr, [])"
  by (simp add: emitPadrow_def padrowMarkers_def Let_def emitPad_unlisted comp_def)

lemma emitSector_unlisted:
  "tpcId \<notin> fTPCIdList cfg \<Longrightarrow>
   emitSector cfg updateGains an tpcId s = (sectorMarkers s, [])"
  by (simp add: emitSector_def sectorMarkers_def Let_def emitPadrow_unlisted comp_def)

lemma emitChamber_unlisted:
  "ch_id c \<notin> fTPCIdList cfg \<Longrightarrow>
   emitChamber cfg updateGains an c = (chamberMarkers c, [])"
  by (simp add: emitChamber_def chamberMarkers_def Let_def emitSector_unlisted comp_def)

lemma exChamber2_unlisted: "ch_id exChamber2 \<notin> fTPCIdList exCfg"
  by (simp add: exChamber2_def exCfg_def)

lemma analysePad_accumulators:
  assumes "\<not> (fst k = tpcId \<and> fst (snd k) = sectorId) \<or> GetEntries h < fMinHistogramEntries cfg"
  shows "totalAccumulators (analysePad cfg fit an (k, h)) (tpcId, sectorId)
           = totalAccumulators an (tpcId, sectorId)"
  using assms
  by (cases k) (auto simp: analysePad_def locatePeak_def AddValue_def Let_def split: option.splits)

lemma foldl_analysePad_accumulators:
  assumes "\<forall>(k, h) \<in> set pads. fst k = tpcId \<and> fst (snd k) = sectorId
              \<longrightarrow> GetEntries h < fMinHistogramEntries cfg"
  shows "totalAccumulators (foldl (analysePad cfg fit) an pads) (tpcId, sectorId)
           = totalAccumulators an (tpcId, sectorId)"
  using assms
proof (induction pads arbitrary: an)
  case Nil
  then show ?case by simp
next
  case (Cons kh pads)
  obtain k h where kh: "kh = (k, h)" by (cases kh)
  have "totalAccumulators (analysePad cfg fit an (k, h)) (tpcId, sectorId)
           = totalAccumulators an (tpcId, sectorId)"
    using Cons.prems kh by (intro analysePad_accumulators) auto
  moreover have "totalAccumulators (foldl (analysePad cfg fit) (analysePad cfg fit an kh) pads)
                   (tpcId, sectorId)
           = totalAccumulators (analysePad cfg fit an kh) (tpcId, sectorId)"
    using Cons.prems by (intro Cons.IH) auto
  ultimately show ?case using kh by simp
qed

lemma analysePad_adcs:
  assumes "\<not> (fst k = tpcId \<and> fst (snd k) = sectorId) \<or> GetEntries h < fMinHistogramEntries cfg"
  shows "spectrumADCs (analysePad cfg fit an (k, h)) (tpcId, sectorId, padrowId, padId)
           = spectrumADCs an (tpcId, sectorId, padrowId, padId)"
  using assms
  by (cases k) (auto simp: analysePad_def locatePeak_def Let_def split: option.splits)

lemma foldl_analysePad_adcs:
  assumes "\<forall>(k, h) \<in> set pads. fst k = tpcId \<and> fst (snd k) = sectorId
              \<longrightarrow> GetEntries h < fMinHistogramEntries cfg"
  shows "spectrumADCs (foldl (analysePad cfg fit) an pads) (tpcId, sectorId, padrowId, padId)
           = spectrumADCs an (tpcId, sectorId, padrowId, padId)"
  using assms
proof (induction pads arbitrary: an)
  case Nil
  then show ?case by simp
next
  case (Cons kh pads)
  obtain k h where kh: "kh = (k, h)" by (cases kh)
  have "spectrumADCs (analysePad cfg fit an (k, h)) (tpcId, sectorId, padrowId, padId)
           = spectrumADCs an (tpcId, sectorId, padrowId, padId)"
    using Cons.prems kh by (intro analysePad_adcs) auto
  moreover have "spectrumADCs (foldl (analysePad cfg fit) (analysePad cfg fit an kh) pads)
                   (tpcId, sectorId, padrowId, padId)
           = spectrumADCs (analysePad cfg fit an kh) (tpcId, sectorId, padrowId, padId)"
    using Cons.prems by (intro Cons.IH) auto
  ultimately show ?case using kh by simp
qed

lemma emitPad_no_peak:
  "tpcId \<in> fTPCIdList cfg \<Longrightarrow> adcs (tpcId, sectorId, pr_id pr, padId) = None \<Longrightarrow>
   emitPad cfg updateGains adcs tpcId sectorId sectorADC pr padId =
     ([GainValue (Fin (- 1))],
      [\<lparr>fTPCId = tpcId, fSectorId = sectorId, fPadrowId = pr_id pr, fPadId = padId,
        fSpectrumADC = Fin 0, fGain = Fin 0\<rparr>])"
proof -
  assume listed: "tpcId \<in> fTPCIdList cfg" and none: "adcs (tpcId, sectorId, pr_id pr, padId) = None"
  have p: "padADC adcs (tpcId, sectorId, pr_id pr, padId) = Fin 0"
    using none by (simp add: padADC_def)
  have "isnan (computeGain updateGains (pr_gain pr padId) sectorADC (Fin 0))
        \<or> isinf (computeGain updateGains (pr_gain pr padId) sectorADC (Fin 0))"
    using ddiv_zero_special by (simp add: computeGain_def)
  then have s: "sanitize (computeGain updateGains (pr_gain pr padId) sectorADC (Fin 0)) = Fin 0"
    by (rule sanitize_special)
  show ?thesis
    by (simp add: emitPad_listed[OF listed] p computeGain_no_peak s)
qed

section \<open>Claims about the gain table\<close>

text \<open>
  C4 (as amended). The token sequence of the gain file is the table of the
  specification: the chambers, sectors and padrows of the geometry in their nesting order,
  each level between its opening and closing markers, and, for the chambers of the TPC
  list, one value per pad in ascending pad order, a pad without a located peak having
  the value \<open>-1\<close>. Without the values, the file is the block structure of the geometry,
  whatever the configuration and the located peaks are. Every value written is \<open>-1\<close> or
  a finite number strictly between \<open>fMinAcceptableGain\<close> and \<open>fMaxAcceptableGain\<close>,
  so never NaN or infinite, and not negative when \<open>fMinAcceptableGain\<close> is not.
\<close>

theorem gain_table_structure:
  "fst (emitGains cfg updateGains an det) = gainTable_spec cfg updateGains an det
   \<and> filter (\<lambda>t. \<not> isValue t) (fst (emitGains cfg updateGains an det))
       = [DocOpen] @ concat (map chamberMarkers det) @ [DocClose]
   \<and> (\<forall>v. GainValue v \<in> set (fst (emitGains cfg updateGains an det)) \<longrightarrow>
          v = Fin (- 1) \<or>
          (\<exists>r. v = Fin r \<and> fMinAcceptableGain cfg < r \<and> r < fMaxAcceptableGain cfg))"
  using table_values[of _ cfg updateGains an det]
  by (simp add: emitGains_tokens markers_table)

text \<open>
  For the calibrated chamber of the example, average 100 and peaks 50, 150 and none:
  the values are \<open>-1\<close> (gain 2 is above the upper bound), \<open>2/3\<close> and \<open>-1\<close>.
\<close>

theorem gain_table_structure_witness:
  "fst (emitGains exCfg False exAnalysis [exChamber1]) =
       [DocOpen, TPCOpen ''VTPC1'', SectorOpen 1, PadrowOpen 1, PadGainsOpen,
        GainValue (Fin (- 1)), GainValue (Fin (2 / 3)), GainValue (Fin (- 1)),
        PadGainsClose, PadrowClose, SectorClose, TPCClose, DocClose]
   \<and> GainValue (Fin (2 / 3)) \<in> set (fst (emitGains exCfg False exAnalysis [exChamber1]))
   \<and> fMinAcceptableGain exCfg < 2 / 3 \<and> 2 / 3 < fMaxAcceptableGain exCfg"
proof -
  have t: "gainTable_spec exCfg False exAnalysis [exChamber1] =
       [DocOpen, TPCOpen ''VTPC1'', SectorOpen 1, PadrowOpen 1, PadGainsOpen,
        GainValue (Fin (- 1)), GainValue (Fin (2 / 3)), GainValue (Fin (- 1)),
        PadGainsClose, PadrowClose, SectorClose, TPCClose, DocClose]"
    by (simp add: gainTable_spec_def chamberBlock_spec_def sectorBlock_spec_def
          padrowBlock_spec_def padValue_spec_def exChamber1_def exSector_def exPadrow_def
          exCfg_def exAnalysis_def GetAverage_def computeGain_def acceptable_def Let_def upt_rec)
  have b: "fMinAcceptableGain exCfg < 2 / 3 \<and> 2 / 3 < fMaxAcceptableGain exCfg"
    by (simp add: exCfg_def)
  show ?thesis
    using gain_table_structure[of exCfg False exAnalysis "[exChamber1]"] t b by simp
qed

text \<open>
  C4 as stated fails in two ways. A chamber outside the TPC list gets its markers and no
  value for any of its three pads; and with a negative \<open>fMinAcceptableGain\<close> a negative
  gain is written (average 100, peak \<open>-200\<close>).
\<close>

theorem gain_table_counterexample:
  "pr_npads exPadrow = 3
   \<and> fst (emitGains exCfg False exAnalysis [exChamber2]) =
       [DocOpen, TPCOpen ''VTPC2'', SectorOpen 1, PadrowOpen 1, PadGainsOpen, PadGainsClose,
        PadrowClose, SectorClose, TPCClose, DocClose]
   \<and> fst (emitPad exCfgNeg False [(1, 1, 1, 1) \<mapsto> Fin (- 200)] 1 1 (Fin 100) exPadrow 1) =
       [GainValue (Fin (- 1 / 2))]"
  by (simp add: emitGains_def emitChamber_def emitSector_def emitPadrow_def emitPad_def
        exChamber2_def exSector_def exPadrow_def exCfg_def exCfgNeg_def padADC_def
        computeGain_def tableValue_def acceptable_def Let_def upt_rec)

text \<open>
  C9 (as amended). When every pad of a sector of a calibrated chamber was excluded for
  too few entries, no failure is raised: whatever the sector's average is, the gain file
  gets the sector's block with \<open>-1\<close> for every pad and the result tree gets one row per
  pad with peak position 0 and gain 0. The average of such a sector is NaN.
\<close>

theorem empty_sector_defaults:
  assumes excluded: "\<forall>(k, h) \<in> set pads. fst k = tpcId \<and> fst (snd k) = sec_id s
              \<longrightarrow> GetEntries h < fMinHistogramEntries cfg"
    and listed: "tpcId \<in> fTPCIdList cfg"
  shows "emitSector cfg updateGains (analyseAll cfg fit pads) tpcId s =
         ([SectorOpen (sec_id s)]
          @ concat (map (\<lambda>pr. [PadrowOpen (pr_id pr), PadGainsOpen]
                               @ replicate (pr_npads pr) (GainValue (Fin (- 1)))
                               @ [PadGainsClose, PadrowClose]) (sec_padrows s))
          @ [SectorClose],
          concat (map (\<lambda>pr. map (\<lambda>padId.
                     \<lparr>fTPCId = tpcId, fSectorId = sec_id s, fPadrowId = pr_id pr, fPadId = padId,
                      fSpectrumADC = Fin 0, fGain = Fin 0\<rparr>) [1 ..< pr_npads pr + 1])
                  (sec_padrows s)))
     \<and> GetAverage (totalAccumulators (analyseAll cfg fit pads)) tpcId (sec_id s) = NaN"
proof -
  have none: "spectrumADCs (analyseAll cfg fit pads) (tpcId, sec_id s, r, p) = None" for r p
    unfolding analyseAll_def using foldl_analysePad_adcs[OF excluded] by simp
  have "totalAccumulators (analyseAll cfg fit pads) (tpcId, sec_id s) = None"
    unfolding analyseAll_def using foldl_analysePad_accumulators[OF excluded] by simp
  then have avg: "GetAverage (totalAccumulators (analyseAll cfg fit pads)) tpcId (sec_id s) = NaN"
    by (simp add: GetAverage_def)
  have "emitSector cfg updateGains (analyseAll cfg fit pads) tpcId s =
         ([SectorOpen (sec_id s)]
          @ concat (map (\<lambda>pr. [PadrowOpen (pr_id pr), PadGainsOpen]
                               @ replicate (pr_npads pr) (GainValue (Fin (- 1)))
                               @ [PadGainsClose, PadrowClose]) (sec_padrows s))
          @ [SectorClose],
          concat (map (\<lambda>pr. map (\<lambda>padId.
                     \<lparr>fTPCId = tpcId, fSectorId = sec_id s, fPadrowId = pr_id pr, fPadId = padId,
                      fSpectrumADC = Fin 0, fGain = Fin 0\<rparr>) [1 ..< pr_npads pr + 1])
                  (sec_padrows s)))"
    by (simp add: emitSector_def emitPadrow_def Let_def emitPad_no_peak[OF listed, where adcs = "spectrumADCs (analyseAll cfg fit pads)"] none
          comp_def map_replicate_const del: upt_Suc)
  then show ?thesis using avg by simp
qed

text \<open>The example sector with one empty pad histogram: three values \<open>-1\<close>, three rows.\<close>

theorem empty_sector_defaults_witness:
  "emitSector exCfg False (analyseAll exCfg exFit [((1, 1, 1, 1), TH1D 4 0 8)]) 1 exSector =
     ([SectorOpen 1, PadrowOpen 1, PadGainsOpen, GainValue (Fin (- 1)), GainValue (Fin (- 1)),
       GainValue (Fin (- 1)), PadGainsClose, PadrowClose, SectorClose],
      [\<lparr>fTPCId = 1, fSectorId = 1, fPadrowId = 1, fPadId = 1, fSpectrumADC = Fin 0, fGain = Fin 0\<rparr>,
       \<lparr>fTPCId = 1, fSectorId = 1, fPadrowId = 1, fPadId = 2, fSpectrumADC = Fin 0, fGain = Fin 0\<rparr>,
       \<lparr>fTPCId = 1, fSectorId = 1, fPadrowId = 1, fPadId = 3, fSpectrumADC = Fin 0, fGain = Fin 0\<rparr>])"
proof -
  have e: "\<forall>(k, h) \<in> set [((1, 1, 1, 1), TH1D 4 0 8)]. fst k = 1 \<and> fst (snd k) = sec_id exSector
              \<longrightarrow> GetEntries h < fMinHistogramEntries exCfg"
    by (simp add: GetEntries_def TH1D_def exCfg_def)
  show ?thesis
    using empty_sector_defaults[OF e exAnalysis_facts(3), where updateGains = False and fit = exFit]
    by (simp add: exSector_def exPadrow_def upt_rec numeral_3_eq_3)
qed

text \<open>
  C9 as stated fails: for the example chamber, whose only histogram is empty, the loop
  writes a complete table of sentinels from an undefined sector average.
\<close>

theorem empty_sector_counterexample:
  "fst (emitGains exCfg False (analyseAll exCfg exFit [((1, 1, 1, 1), TH1D 4 0 8)]) [exChamber1]) =
     [DocOpen, TPCOpen ''VTPC1'', SectorOpen 1, PadrowOpen 1, PadGainsOpen,
      GainValue (Fin (- 1)), GainValue (Fin (- 1)), GainValue (Fin (- 1)),
      PadGainsClose, PadrowClose, SectorClose, TPCClose, DocClose]
   \<and> GetAverage (totalAccumulators (analyseAll exCfg exFit [((1, 1, 1, 1), TH1D 4 0 8)])) 1 1 = NaN"
proof -
  have a: "analyseAll exCfg exFit [((1, 1, 1, 1), TH1D 4 0 8)] = exNoAnalysis"
    by (simp add: analyseAll_def analysePad_def locatePeak_def GetEntries_def TH1D_def exCfg_def
          exNoAnalysis_def)
  show ?thesis
    unfolding a
    by (simp add: emitGains_def emitChamber_def emitSector_def emitPadrow_def emitPad_def
          exChamber1_def exSector_def exPadrow_def exCfg_def exNoAnalysis_def GetAverage_def
          padADC_def computeGain_def tableValue_def acceptable_def Let_def upt_rec)
qed

text \<open>
  C10. The loop writes the markers of every chamber of the geometry: the gain file is
  the concatenation of the chambers' blocks in geometry order. For a chamber that is not
  in the TPC list the block is its complete marker structure with no value between
  \<open>PadGainsOpen\<close> and \<open>PadGainsClose\<close>, the chamber adds no row to the result tree, and
  no row of the tree carries its identifier.
\<close>

theorem unlisted_tpc_blocks:
  assumes "ch_id c \<notin> fTPCIdList cfg"
  shows "emitChamber cfg updateGains an c = (chamberMarkers c, [])
     \<and> fst (emitGains cfg updateGains an det) =
         [DocOpen] @ concat (map (\<lambda>c. fst (emitChamber cfg updateGains an c)) det) @ [DocClose]
     \<and> filter isValue (chamberMarkers c) = []
     \<and> (\<forall>row \<in> set (snd (emitGains cfg updateGains an det)). fTPCId row \<noteq> ch_id c)"
proof -
  have "filter isValue (padrowMarkers pr) = []" for pr by (simp add: padrowMarkers_def)
  then have "filter isValue (sectorMarkers s) = []" for s
    by (simp add: sectorMarkers_def filter_concat comp_def)
  then have v: "filter isValue (chamberMarkers c) = []"
    by (simp add: chamberMarkers_def filter_concat comp_def)
  have r: "\<forall>row \<in> set (snd (emitGains cfg updateGains an det)). fTPCId row \<noteq> ch_id c"
    using emitGains_rows[of _ cfg updateGains an det] assms by metis
  have t: "fst (emitGains cfg updateGains an det) =
         [DocOpen] @ concat (map (\<lambda>c. fst (emitChamber cfg updateGains an c)) det) @ [DocClose]"
    by (simp add: emitGains_def Let_def comp_def)
  show ?thesis using emitChamber_unlisted[OF assms] v r t by blast
qed

text \<open>
  The second chamber of the example is not in the list: its block has the markers of its
  sector and padrow and none of the three pad values, after the first chamber's block.
\<close>

theorem unlisted_tpc_blocks_witness:
  "ch_id exChamber2 \<notin> fTPCIdList exCfg
   \<and> pr_npads exPadrow = 3
   \<and> emitChamber exCfg False exAnalysis exChamber2 =
       ([TPCOpen ''VTPC2'', SectorOpen 1, PadrowOpen 1, PadGainsOpen, PadGainsClose,
         PadrowClose, SectorClose, TPCClose], [])
   \<and> fst (emitGains exCfg False exAnalysis exDet) =
       [DocOpen, TPCOpen ''VTPC1'', SectorOpen 1, PadrowOpen 1, PadGainsOpen,
        GainValue (Fin (- 1)), GainValue (Fin (2 / 3)), GainValue (Fin (- 1)),
        PadGainsClose, PadrowClose, SectorClose, TPCClose,
        TPCOpen ''VTPC2'', SectorOpen 1, PadrowOpen 1, PadGainsOpen, PadGainsClose,
        PadrowClose, SectorClose, TPCClose, DocClose]"
proof -
  have c1: "fst (emitChamber exCfg False exAnalysis exChamber1) =
      [TPCOpen ''VTPC1'', SectorOpen 1, PadrowOpen 1, PadGainsOpen,
        GainValue (Fin (- 1)), GainValue (Fin (2 / 3)), GainValue (Fin (- 1)),
        PadGainsClose, PadrowClose, SectorClose, TPCClose]"
    by (simp add: emitChamber_def emitSector_def emitPadrow_def emitPad_def exChamber1_def
          exSector_def exPadrow_def exCfg_def exAnalysis_def GetAverage_def padADC_def
          computeGain_def tableValue_def acceptable_def Let_def upt_rec)
  show ?thesis
    using unlisted_tpc_blocks[OF exChamber2_unlisted, of False exAnalysis exDet]
      exChamber2_unlisted c1
    by (simp add: chamberMarkers_def sectorMarkers_def padrowMarkers_def exChamber2_def
          exSector_def exPadrow_def exDet_def)
qed

section \<open>Facts about the peak search\<close>

lemma locatePeak_Some_entries:
  "locatePeak cfg fit tpcId sectorId h = Some pos \<Longrightarrow> fMinHistogramEntries cfg \<le> GetEntries h"
  by (simp add: locatePeak_def Let_def split: if_splits)

lemma locatePeak_iff:
  "fFitFunction cfg = ''Gaussian'' \<or> fFitFunction cfg = ''Fermi'' \<Longrightarrow>
   (locatePeak cfg fit tpcId sectorId h \<noteq> None) = (fMinHistogramEntries cfg \<le> GetEntries h)"
  by (auto simp: locatePeak_def Let_def)

lemma contributions_AddValue:
  "contributions (AddValue t s v acc) t' s'
     = contributions acc t' s' + (if t = t' \<and> s = s' then 1 else 0)"
  by (auto simp: contributions_def AddValue_def split: option.splits)

lemma contributions_analysePad:
  "contributions (totalAccumulators (analysePad cfg fit an (k, h))) t s
     = contributions (totalAccumulators an) t s
       + (if fst k = t \<and> fst (snd k) = s \<and> locatePeak cfg fit t s h \<noteq> None then 1 else 0)"
  by (cases k) (auto simp: analysePad_def contributions_AddValue split: option.splits)

lemma contributions_foldl:
  "contributions (totalAccumulators (foldl (analysePad cfg fit) an pads)) t s
     = contributions (totalAccumulators an) t s
       + length (filter (\<lambda>(k, h). fst k = t \<and> fst (snd k) = s
                                     \<and> locatePeak cfg fit t s h \<noteq> None) pads)"
proof (induction pads arbitrary: an)
  case Nil
  then show ?case by simp
next
  case (Cons kh pads)
  obtain k h where kh: "kh = (k, h)" by (cases kh)
  show ?case
    unfolding kh using Cons.IH[of "analysePad cfg fit an (k, h)"]
    by (simp add: contributions_analysePad)
qed

lemma exHist_scan:
  "findPeak (minADCPeakSearch exCfg 1 1) exHist = \<lparr>maxBin = 2, chargePeak = 3, chargePeakValue = 3\<rparr>"
  by (simp add: findPeak_def peakStep_def lastBin_def exHist_def minADCPeakSearch_def exCfg_def
        GetBinCenter_def GetBinContent_def Let_def upt_rec)

lemma exHist_bounds:
  "minChargeForFit exHist 3 2 = 1"
  "maxChargeForFit exHist 3 2 = 0"
  by (simp_all add: maxChargeForFit.simps lastBin_def exHist_def GetBinCenter_def
        GetBinContent_def numeral_2_eq_2)

lemma fermiFit_eq:
  "fermiFit minSearch h =
     \<lparr>tf_formula = Fermi,
      tf_xmin = chargePeak (findPeak minSearch h),
      tf_xmax = GetBinCenter h (int (h_nbins h) - 1),
      tf_par = (\<lambda>_. 0)(0 := chargePeakValue (findPeak minSearch h), 1 := 0.01,
                         2 := chargePeak (findPeak minSearch h)),
      tf_fixed = {0},
      tf_limits = [1 \<mapsto> (0.0001, 1)]\<rparr>"
  by (simp add: fermiFit_def Let_def TF1_def FixParameter_def SetParameter_def SetParLimits_def
        maxCharge_def lastBin_def)

lemma maxCharge_below:
  "0 < h_nbins h \<Longrightarrow>
   GetBinCenter h (int (h_nbins h) - 1) = h_xmax h - 1.5 * ((h_xmax h - h_xmin h) / real (h_nbins h))"
  by (simp add: GetBinCenter_def Let_def field_simps)


lemma foldl_invariant:
  assumes "P a" and "\<And>b x. P b \<Longrightarrow> x \<in> set xs \<Longrightarrow> P (f b x)"
  shows "P (foldl f a xs)"
  using assms by (induction xs arbitrary: a) simp_all

lemma findPeak_cases:
  "findPeak minSearch h = \<lparr>maxBin = 0, chargePeak = 0, chargePeakValue = 0\<rparr>
   \<or> (chargePeak (findPeak minSearch h) = GetBinCenter h (int (maxBin (findPeak minSearch h)))
      \<and> chargePeakValue (findPeak minSearch h) = GetBinContent h (maxBin (findPeak minSearch h))
      \<and> int (maxBin (findPeak minSearch h)) < lastBin h
      \<and> minSearch \<le> chargePeak (findPeak minSearch h))"
  unfolding findPeak_def
proof (rule foldl_invariant[where P = "\<lambda>pk. pk = \<lparr>maxBin = 0, chargePeak = 0, chargePeakValue = 0\<rparr>
         \<or> (chargePeak pk = GetBinCenter h (int (maxBin pk))
            \<and> chargePeakValue pk = GetBinContent h (maxBin pk)
            \<and> int (maxBin pk) < lastBin h \<and> minSearch \<le> chargePeak pk)"])
  show "\<lparr>maxBin = 0, chargePeak = 0, chargePeakValue = 0\<rparr>
          = \<lparr>maxBin = 0, chargePeak = 0, chargePeakValue = 0\<rparr>
        \<or> (chargePeak \<lparr>maxBin = 0, chargePeak = 0, chargePeakValue = 0\<rparr>
              = GetBinCenter h (int (maxBin \<lparr>maxBin = 0, chargePeak = 0, chargePeakValue = 0\<rparr>))
           \<and> chargePeakValue \<lparr>maxBin = 0, chargePeak = 0, chargePeakValue = 0\<rparr>
              = GetBinContent h (maxBin \<lparr>maxBin = 0, chargePeak = 0, chargePeakValue = 0\<rparr>)
           \<and> int (maxBin \<lparr>maxBin = 0, chargePeak = 0, chargePeakValue = 0\<rparr>) < lastBin h
           \<and> minSearch \<le> chargePeak \<lparr>maxBin = 0, chargePeak = 0, chargePeakValue = 0\<rparr>)"
    by simp
next
  fix b :: peak and x :: nat
  assume b: "b = \<lparr>maxBin = 0, chargePeak = 0, chargePeakValue = 0\<rparr>
         \<or> (chargePeak b = GetBinCenter h (int (maxBin b))
            \<and> chargePeakValue b = GetBinContent h (maxBin b)
            \<and> int (maxBin b) < lastBin h \<and> minSearch \<le> chargePeak b)"
    and x: "x \<in> set [0 ..< nat (lastBin h)]"
  from x have "int x < lastBin h" by auto
  with b show "peakStep minSearch h b x = \<lparr>maxBin = 0, chargePeak = 0, chargePeakValue = 0\<rparr>
         \<or> (chargePeak (peakStep minSearch h b x) = GetBinCenter h (int (maxBin (peakStep minSearch h b x)))
            \<and> chargePeakValue (peakStep minSearch h b x) = GetBinContent h (maxBin (peakStep minSearch h b x))
            \<and> int (maxBin (peakStep minSearch h b x)) < lastBin h
            \<and> minSearch \<le> chargePeak (peakStep minSearch h b x))"
    by (auto simp: peakStep_def Let_def)
qed

lemma exFermi_facts:
  "fFitFunction exCfgFermi = ''Fermi''"
  "fMinHistogramEntries exCfgFermi \<le> GetEntries exHist"
  "\<lparr>maxBin = 2, chargePeak = 3, chargePeakValue = 3\<rparr>
     = findPeak (minADCPeakSearch exCfgFermi 1 1) exHist"
  "0 < h_nbins exHist"
  using exHist_scan
  by (simp_all add: exCfgFermi_def exCfg_def GetEntries_def exHist_def minADCPeakSearch_def)

lemma analysePad_adcs_key:
  assumes "k \<noteq> k0 \<or> GetEntries h < fMinHistogramEntries cfg"
  shows "spectrumADCs (analysePad cfg fit an (k, h)) k0 = spectrumADCs an k0"
  using assms
  by (cases k) (auto simp: analysePad_def locatePeak_def Let_def split: option.splits)

lemma foldl_analysePad_adcs_key:
  assumes "\<forall>(k, h) \<in> set pads. k = k0 \<longrightarrow> GetEntries h < fMinHistogramEntries cfg"
  shows "spectrumADCs (foldl (analysePad cfg fit) an pads) k0 = spectrumADCs an k0"
  using assms
proof (induction pads arbitrary: an)
  case Nil
  then show ?case by simp
next
  case (Cons kh pads)
  obtain k h where kh: "kh = (k, h)" by (cases kh)
  have "spectrumADCs (analysePad cfg fit an (k, h)) k0 = spectrumADCs an k0"
    using Cons.prems kh by (intro analysePad_adcs_key) auto
  moreover have "spectrumADCs (foldl (analysePad cfg fit) (analysePad cfg fit an kh) pads) k0
           = spectrumADCs (analysePad cfg fit an kh) k0"
    using Cons.prems by (intro Cons.IH) auto
  ultimately show ?case using kh by simp
qed

section \<open>Claims about the peak search\<close>

text \<open>
  C5 (as amended). A pad's peak is located only when its histogram has at least
  \<open>fMinHistogramEntries\<close> entries, and a pad below the threshold leaves the located
  positions and the sector accumulators, hence the sector average, as they were. With one
  of the two fit functions configured, the peak is located exactly when the threshold is
  met: such a pad stores its position and adds that same position to the accumulator of
  its sector, which then counts one value more, and after all pads the number of values a
  sector has received is the number of its pads that met the threshold. Downstream, a pad
  below the threshold has no located position, and when its chamber is in the TPC list
  the pad loop still writes the value \<open>-1\<close> for it and stores a row with peak position
  0 and gain 0 in the result tree.
\<close>

theorem threshold_gate:
  "(locatePeak cfg fit tpcId sectorId h = Some pos \<longrightarrow> fMinHistogramEntries cfg \<le> GetEntries h)
   \<and> (GetEntries h < fMinHistogramEntries cfg \<longrightarrow>
          analysePad cfg fit an ((tpcId, sectorId, padrowId, padId), h) = an)
   \<and> (fFitFunction cfg = ''Gaussian'' \<or> fFitFunction cfg = ''Fermi'' \<longrightarrow>
        (locatePeak cfg fit tpcId sectorId h \<noteq> None) = (fMinHistogramEntries cfg \<le> GetEntries h)
        \<and> (fMinHistogramEntries cfg \<le> GetEntries h \<longrightarrow>
             (\<exists>p. locatePeak cfg fit tpcId sectorId h = Some p
                \<and> analysePad cfg fit an ((tpcId, sectorId, padrowId, padId), h) =
                    an\<lparr>spectrumADCs :=
                         (spectrumADCs an)((tpcId, sectorId, padrowId, padId) \<mapsto> p),
                       totalAccumulators := AddValue tpcId sectorId p (totalAccumulators an)\<rparr>
                \<and> contributions (AddValue tpcId sectorId p (totalAccumulators an)) tpcId sectorId
                    = contributions (totalAccumulators an) tpcId sectorId + 1))
        \<and> contributions (totalAccumulators (analyseAll cfg fit pads)) tpcId sectorId
            = length (filter (\<lambda>(k, h). fst k = tpcId \<and> fst (snd k) = sectorId
                                         \<and> fMinHistogramEntries cfg \<le> GetEntries h) pads))
   \<and> ((\<forall>(k, h) \<in> set pads. k = (tpcId, sectorId, pr_id pr, padId)
                                  \<longrightarrow> GetEntries h < fMinHistogramEntries cfg)
        \<and> tpcId \<in> fTPCIdList cfg \<longrightarrow>
        spectrumADCs (analyseAll cfg fit pads) (tpcId, sectorId, pr_id pr, padId) = None
        \<and> emitPad cfg updateGains (spectrumADCs (analyseAll cfg fit pads)) tpcId sectorId
             sectorADC pr padId =
            ([GainValue (Fin (- 1))],
             [\<lparr>fTPCId = tpcId, fSectorId = sectorId, fPadrowId = pr_id pr, fPadId = padId,
               fSpectrumADC = Fin 0, fGain = Fin 0\<rparr>]))"
proof -
  have lo: "GetEntries h < fMinHistogramEntries cfg \<longrightarrow>
          analysePad cfg fit an ((tpcId, sectorId, padrowId, padId), h) = an"
    by (simp add: analysePad_def locatePeak_def)
  have only: "locatePeak cfg fit tpcId sectorId h = Some pos
                \<longrightarrow> fMinHistogramEntries cfg \<le> GetEntries h"
    using locatePeak_Some_entries by blast
  have rest: "(locatePeak cfg fit tpcId sectorId h \<noteq> None) = (fMinHistogramEntries cfg \<le> GetEntries h)
        \<and> (fMinHistogramEntries cfg \<le> GetEntries h \<longrightarrow>
             (\<exists>p. locatePeak cfg fit tpcId sectorId h = Some p
                \<and> analysePad cfg fit an ((tpcId, sectorId, padrowId, padId), h) =
                    an\<lparr>spectrumADCs :=
                         (spectrumADCs an)((tpcId, sectorId, padrowId, padId) \<mapsto> p),
                       totalAccumulators := AddValue tpcId sectorId p (totalAccumulators an)\<rparr>
                \<and> contributions (AddValue tpcId sectorId p (totalAccumulators an)) tpcId sectorId
                    = contributions (totalAccumulators an) tpcId sectorId + 1))
        \<and> contributions (totalAccumulators (analyseAll cfg fit pads)) tpcId sectorId
            = length (filter (\<lambda>(k, h). fst k = tpcId \<and> fst (snd k) = sectorId
                                         \<and> fMinHistogramEntries cfg \<le> GetEntries h) pads)"
    if fitOK: "fFitFunction cfg = ''Gaussian'' \<or> fFitFunction cfg = ''Fermi''"
  proof -
    have i: "(locatePeak cfg fit t s h \<noteq> None) = (fMinHistogramEntries cfg \<le> GetEntries h)"
      for t s h using locatePeak_iff[OF fitOK] by simp
    have i': "(\<exists>y. locatePeak cfg fit t s h = Some y) = (fMinHistogramEntries cfg \<le> GetEntries h)"
      for t s h using i[of t s h] by auto
    have hi: "fMinHistogramEntries cfg \<le> GetEntries h \<longrightarrow>
          (\<exists>p. locatePeak cfg fit tpcId sectorId h = Some p
             \<and> analysePad cfg fit an ((tpcId, sectorId, padrowId, padId), h) =
                 an\<lparr>spectrumADCs :=
                      (spectrumADCs an)((tpcId, sectorId, padrowId, padId) \<mapsto> p),
                    totalAccumulators := AddValue tpcId sectorId p (totalAccumulators an)\<rparr>
             \<and> contributions (AddValue tpcId sectorId p (totalAccumulators an)) tpcId sectorId
                 = contributions (totalAccumulators an) tpcId sectorId + 1)"
      using i[of tpcId sectorId h] by (auto simp: analysePad_def contributions_AddValue)
    have z: "contributions (totalAccumulators
               \<lparr>spectrumADCs = Map.empty, totalAccumulators = Map.empty\<rparr>) tpcId sectorId = 0"
      by (simp add: contributions_def)
    have all: "contributions (totalAccumulators (analyseAll cfg fit pads)) tpcId sectorId
         = length (filter (\<lambda>(k, h). fst k = tpcId \<and> fst (snd k) = sectorId
                                      \<and> fMinHistogramEntries cfg \<le> GetEntries h) pads)"
      unfolding analyseAll_def contributions_foldl z by (simp add: i')
    show ?thesis using i hi all by blast
  qed
  have down: "spectrumADCs (analyseAll cfg fit pads) (tpcId, sectorId, pr_id pr, padId) = None
        \<and> emitPad cfg updateGains (spectrumADCs (analyseAll cfg fit pads)) tpcId sectorId
             sectorADC pr padId =
            ([GainValue (Fin (- 1))],
             [\<lparr>fTPCId = tpcId, fSectorId = sectorId, fPadrowId = pr_id pr, fPadId = padId,
               fSpectrumADC = Fin 0, fGain = Fin 0\<rparr>])"
    if below: "\<forall>(k, h) \<in> set pads. k = (tpcId, sectorId, pr_id pr, padId)
                                  \<longrightarrow> GetEntries h < fMinHistogramEntries cfg"
      and listed: "tpcId \<in> fTPCIdList cfg"
  proof -
    have none: "spectrumADCs (analyseAll cfg fit pads) (tpcId, sectorId, pr_id pr, padId) = None"
      unfolding analyseAll_def using foldl_analysePad_adcs_key[OF below] by simp
    show ?thesis
      using none
        emitPad_no_peak[OF listed, where adcs = "spectrumADCs (analyseAll cfg fit pads)"
          and sectorId = sectorId and pr = pr and padId = padId]
      by simp
  qed
  show ?thesis using lo only rest down by blast
qed

text \<open>
  The example sector with a histogram of 18 entries and an empty one, the threshold
  being 10: the first is located, the second is not, the sector receives one value, and
  the pad of the empty histogram gets the value \<open>-1\<close> and a row with peak 0 and gain 0.
\<close>

theorem threshold_gate_witness:
  "(fFitFunction exCfg = ''Gaussian'' \<or> fFitFunction exCfg = ''Fermi'')
   \<and> fMinHistogramEntries exCfg \<le> GetEntries exHist
   \<and> GetEntries (TH1D 4 0 8) < fMinHistogramEntries exCfg
   \<and> 1 \<in> fTPCIdList exCfg
   \<and> locatePeak exCfg exFit 1 1 exHist \<noteq> None
   \<and> analysePad exCfg exFit exNoAnalysis ((1, 1, 1, 2), TH1D 4 0 8) = exNoAnalysis
   \<and> contributions (totalAccumulators
        (analyseAll exCfg exFit [((1, 1, 1, 1), exHist), ((1, 1, 1, 2), TH1D 4 0 8)])) 1 1 = 1
   \<and> emitPad exCfg False
        (spectrumADCs (analyseAll exCfg exFit [((1, 1, 1, 1), exHist), ((1, 1, 1, 2), TH1D 4 0 8)]))
        1 1 (Fin 100) exPadrow 2 =
       ([GainValue (Fin (- 1))],
        [\<lparr>fTPCId = 1, fSectorId = 1, fPadrowId = 1, fPadId = 2,
          fSpectrumADC = Fin 0, fGain = Fin 0\<rparr>])"
proof -
  have f: "fFitFunction exCfg = ''Gaussian'' \<or> fFitFunction exCfg = ''Fermi''"
    by (simp add: exCfg_def)
  have e: "fMinHistogramEntries exCfg \<le> GetEntries exHist"
    "GetEntries (TH1D 4 0 8) < fMinHistogramEntries exCfg"
    by (simp_all add: exCfg_def exHist_def GetEntries_def TH1D_def)
  have b: "\<forall>(k, h) \<in> set [((1, 1, 1, 1), exHist), ((1, 1, 1, 2), TH1D 4 0 8)].
             k = (1::nat, 1::nat, pr_id exPadrow, 2::nat)
               \<longrightarrow> GetEntries h < fMinHistogramEntries exCfg"
    using e by (simp add: exPadrow_def)
  show ?thesis
    using f e b exAnalysis_facts(3)
      threshold_gate[where cfg = exCfg and fit = exFit and tpcId = 1 and sectorId = 1
        and h = exHist and pads = "[((1, 1, 1, 1), exHist), ((1, 1, 1, 2), TH1D 4 0 8)]"
        and pr = exPadrow and padId = 2 and updateGains = False and sectorADC = "Fin 100"]
      threshold_gate[where cfg = exCfg and fit = exFit and tpcId = 1 and sectorId = 1
        and h = "TH1D 4 0 8" and an = exNoAnalysis and padrowId = 1 and padId = 2
        and pads = "[]" and pr = exPadrow]
    by (simp add: exPadrow_def)
qed

text \<open>
  C5 as stated fails in two ways. With a fit function the locator does not know, here
  \<open>Landau\<close>, a pad that met the threshold is not located and its sector receives
  nothing. And a pad below the threshold does leave a record downstream: the result tree
  gets its row, with peak position 0 and gain 0.
\<close>

theorem threshold_gate_counterexample:
  "fMinHistogramEntries (exCfg\<lparr>fFitFunction := ''Landau''\<rparr>) \<le> GetEntries exHist
   \<and> locatePeak (exCfg\<lparr>fFitFunction := ''Landau''\<rparr>) exFit 1 1 exHist = None
   \<and> analyseAll (exCfg\<lparr>fFitFunction := ''Landau''\<rparr>) exFit [((1, 1, 1, 1), exHist)]
       = exNoAnalysis
   \<and> GetEntries (TH1D 4 0 8) < fMinHistogramEntries exCfg
   \<and> snd (emitPad exCfg False
             (spectrumADCs (analyseAll exCfg exFit [((1, 1, 1, 2), TH1D 4 0 8)]))
             1 1 (Fin 100) exPadrow 2) =
       [\<lparr>fTPCId = 1, fSectorId = 1, fPadrowId = 1, fPadId = 2,
         fSpectrumADC = Fin 0, fGain = Fin 0\<rparr>]"
proof -
  have l: "locatePeak (exCfg\<lparr>fFitFunction := ''Landau''\<rparr>) exFit 1 1 exHist = None"
    by (simp add: locatePeak_def exCfg_def Let_def)
  have a: "analyseAll (exCfg\<lparr>fFitFunction := ''Landau''\<rparr>) exFit [((1, 1, 1, 1), exHist)]
       = exNoAnalysis"
    using l by (simp add: analyseAll_def analysePad_def exNoAnalysis_def)
  have b: "analyseAll exCfg exFit [((1, 1, 1, 2), TH1D 4 0 8)] = exNoAnalysis"
    by (simp add: analyseAll_def analysePad_def locatePeak_def GetEntries_def TH1D_def exCfg_def
          exNoAnalysis_def)
  have e: "fMinHistogramEntries (exCfg\<lparr>fFitFunction := ''Landau''\<rparr>) \<le> GetEntries exHist"
    "GetEntries (TH1D 4 0 8) < fMinHistogramEntries exCfg"
    by (simp_all add: exCfg_def exHist_def GetEntries_def TH1D_def)
  have r: "snd (emitPad exCfg False (spectrumADCs exNoAnalysis) 1 1 (Fin 100) exPadrow 2) =
       [\<lparr>fTPCId = 1, fSectorId = 1, fPadrowId = 1, fPadId = 2,
         fSpectrumADC = Fin 0, fGain = Fin 0\<rparr>]"
    by (simp add: emitPad_def exNoAnalysis_def padADC_def computeGain_def sanitize_def
          exCfg_def exPadrow_def Let_def)
  show ?thesis using l a e r unfolding b by simp
qed

text \<open>
  C6. The search loop stops before \<open>lastBin\<close>, the bin count minus one, so the two
  highest bins of the axis are never looked at. For the example histogram (bin centres
  1, 3, 5, 7; contents 1, 3, 5, 9) and minimum search charge 2 it returns bin 2 with
  content 3, although bin 4, of centre 7, holds 9. The upward walk from bin 2 finds no bin
  below half of 3 and leaves the upper bound at 0, so the Gaussian is fitted on the range
  from 1 to 0.
\<close>

theorem scan_misses_top_bins:
  "findPeak (minADCPeakSearch exCfg 1 1) exHist
     = \<lparr>maxBin = 2, chargePeak = 3, chargePeakValue = 3\<rparr>
   \<and> GetBinContent exHist 4 = 9
   \<and> GetBinCenter exHist 4 = 7
   \<and> minADCPeakSearch exCfg 1 1 = 2
   \<and> gausFit (minADCPeakSearch exCfg 1 1) exHist = TF1 Gaus 1 0
   \<and> locatePeak exCfg exFit 1 1 exHist = Some (exFit exHist (TF1 Gaus 1 0) 1)"
proof -
  have g: "gausFit (minADCPeakSearch exCfg 1 1) exHist = TF1 Gaus 1 0"
    using exHist_bounds exHist_scan by (simp add: gausFit_def Let_def)
  have c: "GetBinContent exHist 4 = 9" "GetBinCenter exHist 4 = 7"
    by (simp_all add: GetBinContent_def GetBinCenter_def exHist_def)
  have m: "minADCPeakSearch exCfg 1 1 = 2"
    by (simp add: minADCPeakSearch_def exCfg_def)
  have l: "locatePeak exCfg exFit 1 1 exHist = Some (exFit exHist (TF1 Gaus 1 0) 1)"
    using g by (simp add: locatePeak_def Let_def GetEntries_def exHist_def exCfg_def minADCPeakSearch_def)
  show ?thesis using exHist_scan g c m l by simp
qed

text \<open>
  C7 (as amended). With the Fermi function configured and enough entries, the located
  position is parameter 2 of the fitted function \<open>[0] / (1 + exp([1] * (x - [2])))\<close>.
  The fit is restricted to the range from the provisional peak position to
  \<open>maxCharge\<close>, the centre of bin \<open>lastBin\<close>, which lies one and a half bin widths
  below the upper end of the histogram; parameter 0 is fixed to the provisional peak
  value, parameter 1 starts at 0.01 within the limits 0.0001 and 1, and parameter 2 starts
  at the provisional peak position. The provisional peak is the centre and the content of
  the peak bin when the search found one, and 0 otherwise.
\<close>

theorem fermi_fit_setup:
  assumes mode: "fFitFunction cfg = ''Fermi''"
    and entries: "fMinHistogramEntries cfg \<le> GetEntries h"
    and pk: "pk = findPeak (minADCPeakSearch cfg tpcId sectorId) h"
    and bins: "0 < h_nbins h"
  shows "locatePeak cfg fit tpcId sectorId h =
           Some (fit h \<lparr>tf_formula = Fermi,
                        tf_xmin = chargePeak pk,
                        tf_xmax = h_xmax h - 1.5 * ((h_xmax h - h_xmin h) / real (h_nbins h)),
                        tf_par = (\<lambda>_. 0)(0 := chargePeakValue pk, 1 := 0.01, 2 := chargePeak pk),
                        tf_fixed = {0},
                        tf_limits = [1 \<mapsto> (0.0001, 1)]\<rparr> 2)
     \<and> evalFormula Fermi p x = p 0 / (1 + exp (p 1 * (x - p 2)))
     \<and> (pk = \<lparr>maxBin = 0, chargePeak = 0, chargePeakValue = 0\<rparr>
        \<or> (chargePeak pk = GetBinCenter h (int (maxBin pk))
           \<and> chargePeakValue pk = GetBinContent h (maxBin pk)))"
proof -
  have l: "locatePeak cfg fit tpcId sectorId h =
           Some (fit h \<lparr>tf_formula = Fermi,
                        tf_xmin = chargePeak pk,
                        tf_xmax = h_xmax h - 1.5 * ((h_xmax h - h_xmin h) / real (h_nbins h)),
                        tf_par = (\<lambda>_. 0)(0 := chargePeakValue pk, 1 := 0.01, 2 := chargePeak pk),
                        tf_fixed = {0},
                        tf_limits = [1 \<mapsto> (0.0001, 1)]\<rparr> 2)"
    using mode entries pk bins
    by (simp add: locatePeak_def Let_def fermiFit_eq maxCharge_below)
  have e: "evalFormula Fermi p x = p 0 / (1 + exp (p 1 * (x - p 2)))"
    by (simp add: evalFormula_def)
  show ?thesis
    using l e findPeak_cases[of "minADCPeakSearch cfg tpcId sectorId" h] pk by blast
qed

text \<open>
  The example histogram: provisional peak at bin 2 (centre 3, content 3), fit range from
  3 to 5.
\<close>

theorem fermi_fit_setup_witness:
  "locatePeak exCfgFermi exFit 1 1 exHist =
     Some (exFit exHist \<lparr>tf_formula = Fermi, tf_xmin = 3, tf_xmax = 5,
                          tf_par = (\<lambda>_. 0)(0 := 3, 1 := 0.01, 2 := 3),
                          tf_fixed = {0}, tf_limits = [1 \<mapsto> (0.0001, 1)]\<rparr> 2)
   \<and> GetBinCenter exHist 2 = 3 \<and> GetBinContent exHist 2 = 3"
proof -
  have c: "GetBinCenter exHist 2 = 3" "GetBinContent exHist 2 = 3"
    by (simp_all add: GetBinCenter_def GetBinContent_def exHist_def)
  have r: "h_xmax exHist - 1.5 * ((h_xmax exHist - h_xmin exHist) / real (h_nbins exHist)) = 5"
    by (simp add: exHist_def)
  show ?thesis
    using fermi_fit_setup[OF exFermi_facts, where fit = exFit] c
    unfolding r by simp
qed

text \<open>
  C7 as stated fails on the upper end of the range: for the example histogram, whose axis
  ends at 8, the fit range ends at 5.
\<close>

theorem fermi_range_counterexample:
  "locatePeak exCfgFermi exFit 1 1 exHist
     = Some (exFit exHist (fermiFit (minADCPeakSearch exCfgFermi 1 1) exHist) 2)
   \<and> tf_xmax (fermiFit (minADCPeakSearch exCfgFermi 1 1) exHist) = 5
   \<and> h_xmax exHist = 8"
proof -
  have "tf_xmax (fermiFit (minADCPeakSearch exCfgFermi 1 1) exHist) = 5"
    by (simp add: fermiFit_eq GetBinCenter_def exHist_def)
  moreover have "locatePeak exCfgFermi exFit 1 1 exHist
     = Some (exFit exHist (fermiFit (minADCPeakSearch exCfgFermi 1 1) exHist) 2)"
    using exFermi_facts(1,2) by (simp add: locatePeak_def Let_def)
  ultimately show ?thesis by (simp add: exHist_def)
qed

end
